theory Spec2Isabelle
  imports Main "HOL-Library.Word"
begin

section \<open>P2MSH: the threshold multi-signature template\<close>

text \<open>
  A shallow embedding of \<^verbatim>\<open>src/template/multisig/MultiSigPubkeyHash.ts\<close>: the address
  codec (\<^verbatim>\<open>address\<close>, \<^verbatim>\<open>thresholdAndTotalFromAddress\<close>), the locking script
  builder (\<^verbatim>\<open>lock\<close>), the signing step (\<^verbatim>\<open>unlock(...).sign\<close>) and the length
  estimator (\<^verbatim>\<open>unlock(...).estimateLength\<close> with \<^verbatim>\<open>numberFromScriptChunk\<close>).

  JavaScript numbers that hold counts are modelled as \<open>int\<close>, byte arrays as lists of
  8-bit words, \<^verbatim>\<open>undefined\<close> as \<open>None\<close>, and every \<^verbatim>\<open>throw\<close> as the left
  summand of a result.

  The repository also keeps an earlier revision of the module,
  \<^verbatim>\<open>src/MultiSigPubkeyHash.ts\<close>: it validates less in \<^verbatim>\<open>address\<close> and \<^verbatim>\<open>lock\<close>,
  splices a new signature in at index 1, and estimates with other constants. The
  specification describes the revision under \<^verbatim>\<open>src/template/multisig\<close> (the bound of
  10 on the total, the search for \<^verbatim>\<open>OP_EQUALVERIFY\<close>, 74 bytes per signature), and
  that revision is the one embedded here.
\<close>

type_synonym byte = "8 word"

datatype error =
    ThresholdOutOfRange     \<comment> \<open>'threshold must be between 1 and the number of pubkeys'\<close>
  | InsufficientKeys        \<comment> \<open>'at least ... pubkeys are required'\<close>
  | TooManyParticipants     \<comment> \<open>'total must be less than or equal to 10'\<close>
  | WrongAddressType        \<comment> \<open>'only P2MSH is supported, set your prefix byte to 0x98'\<close>
  | MissingSourceTXID       \<comment> \<open>'The input sourceTXID or sourceTransaction is required ...'\<close>
  | MissingSourceSatoshis   \<comment> \<open>'The sourceSatoshis or input sourceTransaction is required ...'\<close>
  | MissingLockingScript    \<comment> \<open>'The lockingScript or input sourceTransaction is required ...'\<close>
  | TypeError               \<comment> \<open>a property read on \<^verbatim>\<open>undefined\<close>\<close>
  | LibraryError            \<comment> \<open>an exception raised inside the external library\<close>

subsection \<open>Script chunks and the script writer of the library\<close>

text \<open>A \<^verbatim>\<open>ScriptChunk\<close> is \<^verbatim>\<open>{ op: number, data?: number[] }\<close>; a script is its
  \<^verbatim>\<open>chunks\<close> array.\<close>

record ScriptChunk =
  op :: int
  data :: "byte list option"

type_synonym script = "ScriptChunk list"

text \<open>Modelled from the spec: the opcode table \<^verbatim>\<open>OP\<close> is imported from the external
  library and is not part of the sources; these are the opcode numbers of the script
  language for the names the template uses.\<close>

definition OP_0 :: int where "OP_0 = 0"
definition OP_PUSHDATA1 :: int where "OP_PUSHDATA1 = 76"
definition OP_PUSHDATA2 :: int where "OP_PUSHDATA2 = 77"
definition OP_PUSHDATA4 :: int where "OP_PUSHDATA4 = 78"
definition OP_1NEGATE :: int where "OP_1NEGATE = 79"
definition OP_1 :: int where "OP_1 = 81"
definition OP_DUP :: int where "OP_DUP = 118"
definition OP_SWAP :: int where "OP_SWAP = 124"
definition OP_CAT :: int where "OP_CAT = 126"
definition OP_SPLIT :: int where "OP_SPLIT = 127"
definition OP_EQUALVERIFY :: int where "OP_EQUALVERIFY = 136"
definition OP_HASH160 :: int where "OP_HASH160 = 169"
definition OP_CHECKMULTISIG :: int where "OP_CHECKMULTISIG = 174"

lemmas OP_defs = OP_0_def OP_PUSHDATA1_def OP_PUSHDATA2_def OP_PUSHDATA4_def OP_1NEGATE_def
  OP_1_def OP_DUP_def OP_SWAP_def OP_CAT_def OP_SPLIT_def OP_EQUALVERIFY_def OP_HASH160_def
  OP_CHECKMULTISIG_def

text \<open>Modelled from the spec: \<^verbatim>\<open>Script.writeOpCode\<close> of the external library appends a
  chunk that holds only the opcode.\<close>

definition writeOpCode :: "script \<Rightarrow> int \<Rightarrow> script" where
  "writeOpCode s c = s @ [\<lparr>op = c, data = None\<rparr>]"

text \<open>Modelled from the spec: \<^verbatim>\<open>Script.writeBin\<close> of the external library appends a
  push-data chunk whose opcode is chosen by the length of the data: the length itself
  below 76, \<^verbatim>\<open>OP_0\<close> for no data, else \<^verbatim>\<open>OP_PUSHDATA1/2/4\<close>. (The library throws
  for \<open>2^32\<close> bytes or more, which no JavaScript array reaches.)\<close>

definition pushOp :: "byte list \<Rightarrow> int" where
  "pushOp bin =
     (if 0 < length bin \<and> int (length bin) < OP_PUSHDATA1 then int (length bin)
      else if length bin = 0 then OP_0
      else if length bin < 2 ^ 8 then OP_PUSHDATA1
      else if length bin < 2 ^ 16 then OP_PUSHDATA2
      else OP_PUSHDATA4)"

definition writeBin :: "script \<Rightarrow> byte list \<Rightarrow> script" where
  "writeBin s bin = s @ [\<lparr>op = pushOp bin, data = Some bin\<rparr>]"

text \<open>Little-endian bytes of a natural number, shortest form, and the value of a
  little-endian byte string.\<close>

fun le_bytes :: "nat \<Rightarrow> byte list" where
  "le_bytes n = (if n = 0 then [] else of_nat (n mod 256) # le_bytes (n div 256))"

declare le_bytes.simps [simp del]

fun le_value :: "byte list \<Rightarrow> nat" where
  "le_value [] = 0"
| "le_value (b # bs) = unat b + 256 * le_value bs"

text \<open>Modelled from the spec: \<^verbatim>\<open>BigNumber.toSm('little')\<close> of the external library,
  the script-number encoding: little-endian magnitude with the sign in the top bit of
  the last byte, one more byte when the magnitude already uses that bit; zero is the
  empty string.\<close>

definition toSm :: "int \<Rightarrow> byte list" where
  "toSm v =
     (if v = 0 then []
      else let m = le_bytes (nat \<bar>v\<bar>) in
        if 128 \<le> unat (last m) then m @ [if v < 0 then 128 else 0]
        else if v < 0 then butlast m @ [last m + 128]
        else m)"

text \<open>Modelled from the spec: \<^verbatim>\<open>Script.writeNumber\<close> of the external library
  (section 4.3: "minimal opcode for 1-16, else push-data"): \<^verbatim>\<open>OP_0\<close> for zero,
  \<^verbatim>\<open>OP_1NEGATE\<close> for minus one, \<^verbatim>\<open>OP_1 .. OP_16\<close> for 1 to 16, and a push of the
  script-number encoding otherwise.\<close>

definition writeNumber :: "script \<Rightarrow> int \<Rightarrow> script" where
  "writeNumber s num =
     (if num = 0 then s @ [\<lparr>op = OP_0, data = None\<rparr>]
      else if num = -1 then s @ [\<lparr>op = OP_1NEGATE, data = None\<rparr>]
      else if 1 \<le> num \<and> num \<le> 16 then s @ [\<lparr>op = num + OP_1 - 1, data = None\<rparr>]
      else writeBin s (toSm num))"

subsection \<open>Reading a number from a script chunk\<close>

text \<open>Modelled from the spec: \<^verbatim>\<open>Reader.readInt64LEBn\<close> of the external library reads
  eight bytes as a little-endian two's complement number; bytes past the end of the
  array read as \<^verbatim>\<open>undefined\<close> and count as zero.\<close>

definition readInt64LEBn :: "byte list \<Rightarrow> int" where
  "readInt64LEBn bin =
     (let u = int (le_value (take 8 bin)) in if 2 ^ 63 \<le> u then u - 2 ^ 64 else u)"

text \<open>Modelled from the spec: \<^verbatim>\<open>BigNumber.toNumber\<close> of the external library throws
  when the value does not fit the 53 bits a JavaScript number holds exactly.\<close>

definition toNumber :: "int \<Rightarrow> error + int" where
  "toNumber v = (if \<bar>v\<bar> < 2 ^ 53 then Inr v else Inl LibraryError)"

text \<open>\<^verbatim>\<open>numberFromScriptChunk\<close>: a chunk without data is read as an opcode
  \<^verbatim>\<open>OP_1 .. OP_16\<close>, a chunk with data as a little-endian number.\<close>

definition numberFromScriptChunk :: "ScriptChunk \<Rightarrow> error + int" where
  "numberFromScriptChunk chunk =
     (case data chunk of
        None \<Rightarrow> Inr (1 + op chunk - OP_1)
      | Some d \<Rightarrow> toNumber (readInt64LEBn d))"

subsection \<open>Transactions as the template reads them\<close>

record TransactionOutput =
  satoshis :: "int option"
  lockingScript :: script

text \<open>Of the attached source transaction only \<^verbatim>\<open>id('hex')\<close> and \<^verbatim>\<open>outputs\<close> are
  read.\<close>

record SourceTransaction =
  tx_id :: string
  tx_outputs :: "TransactionOutput list"

record TransactionInput =
  sourceTXID :: "string option"
  sourceTransaction :: "SourceTransaction option"
  sourceOutputIndex :: nat
  sequence :: "int option"

record Transaction =
  version :: int
  inputs :: "TransactionInput list"
  outputs :: "TransactionOutput list"
  lockTime :: int

text \<open>What \<^verbatim>\<open>sign\<close> hands to \<^verbatim>\<open>TransactionSignature.format\<close> and to the wallet's
  \<^verbatim>\<open>createSignature\<close>.\<close>

record SignatureRequest =
  req_sourceTXID :: string
  req_sourceOutputIndex :: nat
  req_sourceSatoshis :: int
  req_transactionVersion :: int
  req_otherInputs :: "TransactionInput list"
  req_inputIndex :: nat
  req_outputs :: "TransactionOutput list"
  req_inputSequence :: int
  req_subscript :: script
  req_lockTime :: int
  req_scope :: "32 word"
  req_counterparty :: string
  req_keyID :: string

subsection \<open>Public keys and the external primitives\<close>

text \<open>A \<^verbatim>\<open>PublicKey\<close> is used only through \<^verbatim>\<open>toDER()\<close>, its 33-byte compressed
  encoding.\<close>

datatype PublicKey = PublicKey (toDER: "byte list")

text \<open>The hash function, the base58check codec, the parser of public keys and the
  wallet's signing service (preimage, double hash, signature in checksig format) belong
  to the external library; they are parameters of the model.
  \<^verbatim>\<open>fromBase58Check\<close> returns the prefix and the payload, or fails; a signing request
  may fail too.\<close>


record Sdk =
  hash160 :: "byte list \<Rightarrow> byte list"
  toBase58Check :: "byte list \<Rightarrow> byte list \<Rightarrow> string"
  fromBase58Check :: "string \<Rightarrow> (byte list \<times> byte list) option"
  publicKeyFromString :: "string \<Rightarrow> PublicKey option"
  createSignature :: "SignatureRequest \<Rightarrow> byte list option"

text \<open>\<^verbatim>\<open>concatPubkeys\<close>: the encodings of the keys, concatenated in list order.\<close>

definition concatPubkeys :: "PublicKey list \<Rightarrow> byte list" where
  "concatPubkeys pubkeys = foldl (\<lambda>a b. a @ b) [] (map toDER pubkeys)"

subsection \<open>The address codec\<close>

text \<open>Fixed-width little-endian bytes.\<close>

fun le_fixed :: "nat \<Rightarrow> nat \<Rightarrow> byte list" where
  "le_fixed 0 n = []"
| "le_fixed (Suc k) n = of_nat (n mod 256) # le_fixed k (n div 256)"

text \<open>Modelled from the spec: \<^verbatim>\<open>Writer.writeVarIntNum\<close> of the external library, the
  variable-length integer of the wire format: one byte below 253, else a marker byte
  253, 254 or 255 and 2, 4 or 8 little-endian bytes.\<close>

definition varIntNum :: "nat \<Rightarrow> byte list" where
  "varIntNum n =
     (if n < 253 then [of_nat n]
      else if n < 2 ^ 16 then 253 # le_fixed 2 n
      else if n < 2 ^ 32 then 254 # le_fixed 4 n
      else 255 # le_fixed 8 n)"

text \<open>Modelled from the spec: \<^verbatim>\<open>Reader.readVarIntNum\<close> of the external library. The
  reader is the list of bytes not yet read. A read past the end gives \<^verbatim>\<open>undefined\<close>
  (or \<^verbatim>\<open>NaN\<close>) in JavaScript, \<open>None\<close> here.\<close>

definition readUIntLE :: "nat \<Rightarrow> byte list \<Rightarrow> int option \<times> byte list" where
  "readUIntLE k bs =
     (if length bs < k then (None, drop k bs) else (Some (int (le_value (take k bs))), drop k bs))"

definition readVarIntNum :: "byte list \<Rightarrow> error + (int option \<times> byte list)" where
  "readVarIntNum bs =
     (case bs of
        [] \<Rightarrow> Inr (None, [])
      | first # r \<Rightarrow>
          if first = 253 then Inr (readUIntLE 2 r)
          else if first = 254 then Inr (readUIntLE 4 r)
          else if first = 255 then
            (let bn = readInt64LEBn r in
             if bn \<le> 2 ^ 53 then (case toNumber bn of Inl e \<Rightarrow> Inl e | Inr v \<Rightarrow> Inr (Some v, drop 8 r))
             else Inl LibraryError)
          else Inr (Some (uint first), r))"

text \<open>\<^verbatim>\<open>MultiSigPubkeyHash.address\<close>: validates, hashes the concatenated keys and
  encodes \<open>hash || varint(threshold) || varint(total)\<close> under the version byte
  \<^verbatim>\<open>0x98\<close>. The threshold is at least 1 where it is written.\<close>

definition address :: "Sdk \<Rightarrow> PublicKey list \<Rightarrow> int \<Rightarrow> error + string" where
  "address sdk pks thr =
     (if thr < 1 \<or> thr > int (length pks) then Inl ThresholdOutOfRange
      else if length pks < 2 \<or> int (length pks) < thr then Inl InsufficientKeys
      else
        let concat = concatPubkeys pks;
            hash = hash160 sdk concat;
            bytes = hash @ varIntNum (nat thr) @ varIntNum (length pks)
        in Inr (toBase58Check sdk bytes [0x98]))"

text \<open>The result of \<^verbatim>\<open>thresholdAndTotalFromAddress\<close>:
  \<^verbatim>\<open>{ hash, threshold, total }\<close>.\<close>

record Decoded =
  dec_hash :: "byte list"
  dec_threshold :: "int option"
  dec_total :: "int option"

definition thresholdAndTotalFromAddress :: "Sdk \<Rightarrow> string \<Rightarrow> error + Decoded" where
  "thresholdAndTotalFromAddress sdk addr =
     (case fromBase58Check sdk addr of
        None \<Rightarrow> Inl LibraryError
      | Some (prefix, d) \<Rightarrow>
          if (case prefix of [] \<Rightarrow> True | p # _ \<Rightarrow> p \<noteq> 0x98) then Inl WrongAddressType
          else
            let hash = take 20 d in
            (case readVarIntNum (drop 20 d) of
               Inl e \<Rightarrow> Inl e
             | Inr (thr, r) \<Rightarrow>
                 (case readVarIntNum r of
                    Inl e \<Rightarrow> Inl e
                  | Inr (tot, _) \<Rightarrow> Inr \<lparr>dec_hash = hash, dec_threshold = thr, dec_total = tot\<rparr>)))"

subsection \<open>The locking script\<close>

text \<open>Lines 84 to 103 of \<^verbatim>\<open>lock\<close>. The total is a number, or \<^verbatim>\<open>undefined\<close>
  when it was read from an address that ends too early. The two \<^verbatim>\<open>for\<close> loops run
  \<open>total - 1\<close> times, not at all when that is not positive, and not at all for an
  undefined total (\<^verbatim>\<open>i < undefined - 1\<close> is false).

  Modelled from the spec: \<^verbatim>\<open>writeNumber(undefined)\<close> of the external library writes
  what it writes for 0, the constructor of its big numbers taking 0 for a missing
  argument.\<close>

definition lock_script :: "byte list \<Rightarrow> int \<Rightarrow> int option \<Rightarrow> script" where
  "lock_script hash thr tot =
     (let rounds = (case tot of None \<Rightarrow> 0 | Some n \<Rightarrow> nat (n - 1));
          s0 = ((\<lambda>s. writeOpCode s OP_CAT) ^^ rounds) [];
          s1 = writeOpCode s0 OP_DUP;
          s2 = writeOpCode s1 OP_HASH160;
          s3 = writeBin s2 hash;
          s4 = writeOpCode s3 OP_EQUALVERIFY;
          s5 = writeNumber s4 thr;
          s6 = writeOpCode s5 OP_SWAP;
          s7 = ((\<lambda>s. writeOpCode (writeNumber s 33) OP_SPLIT) ^^ rounds) s6;
          s8 = writeNumber s7 (case tot of None \<Rightarrow> 0 | Some n \<Rightarrow> n)
      in writeOpCode s8 OP_CHECKMULTISIG)"

text \<open>\<^verbatim>\<open>lock(address?, pubkeys?, threshold = 1)\<close>. A truthy address (a non-empty
  string) is decoded and overrides the other arguments; otherwise the key list is hashed.
  The threshold test follows, then the bound on the total. An undefined threshold is
  falsy and fails the first test; against an undefined total both comparisons
  (\<^verbatim>\<open>threshold > total\<close>, \<^verbatim>\<open>total > 10\<close>) are false, and the script is built.\<close>

definition lock :: "Sdk \<Rightarrow> string option \<Rightarrow> PublicKey list option \<Rightarrow> int option \<Rightarrow> error + script" where
  "lock sdk addr pks thr0 =
     (let thr1 = (case thr0 of None \<Rightarrow> 1 | Some t \<Rightarrow> t);
          tot1 = (case pks of None \<Rightarrow> 0 | Some ks \<Rightarrow> int (length ks));
          resolved =
            (if addr \<noteq> None \<and> addr \<noteq> Some [] then
               (case thresholdAndTotalFromAddress sdk (the addr) of
                  Inl e \<Rightarrow> Inl e
                | Inr r \<Rightarrow> Inr (dec_hash r, dec_total r, dec_threshold r))
             else if pks = None \<or> tot1 < 2 then Inl InsufficientKeys
             else Inr (hash160 sdk (concatPubkeys (the pks)), Some tot1, Some thr1))
      in case resolved of
           Inl e \<Rightarrow> Inl e
         | Inr (hash, tot, thr) \<Rightarrow>
             (case thr of
                None \<Rightarrow> Inl ThresholdOutOfRange
              | Some t \<Rightarrow>
                  (case tot of
                     None \<Rightarrow>
                       if t = 0 \<or> t < 1 then Inl ThresholdOutOfRange
                       else Inr (lock_script hash t None)
                   | Some n \<Rightarrow>
                       if t = 0 \<or> t < 1 \<or> t > n then Inl ThresholdOutOfRange
                       else if n > 10 then Inl TooManyParticipants
                       else Inr (lock_script hash t (Some n)))))"

subsection \<open>The arguments of \<^verbatim>\<open>unlock\<close>\<close>

record MultiSigInstructions =
  keyID :: string
  counterparty :: string
  pubkeys :: "string list"

datatype SignOutputs = SignAll | SignNone | SignSingle

text \<open>The parameters of \<^verbatim>\<open>unlock\<close> after the wallet, which the two closures share.\<close>

record UnlockArgs =
  customInstructions :: MultiSigInstructions
  workingUnlockingScript :: "script option"
  signOutputs :: SignOutputs
  anyoneCanPay :: bool
  sourceSatoshis :: "int option"
  unlock_lockingScript :: "script option"

text \<open>\<^verbatim>\<open>input.sourceTransaction?.outputs[input.sourceOutputIndex].f\<close>:
  \<^verbatim>\<open>undefined\<close> without a source transaction, a \<^verbatim>\<open>TypeError\<close> when the source
  transaction has no such output.\<close>

definition sourceOutputField ::
  "(TransactionOutput \<Rightarrow> 'a option) \<Rightarrow> TransactionInput \<Rightarrow> error + 'a option" where
  "sourceOutputField f inp =
     (case sourceTransaction inp of
        None \<Rightarrow> Inr None
      | Some st \<Rightarrow>
          if sourceOutputIndex inp < length (tx_outputs st)
          then Inr (f (tx_outputs st ! sourceOutputIndex inp))
          else Inl TypeError)"

subsection \<open>Signing\<close>

text \<open>Modelled from the spec: the signature-scope flags of
  \<^verbatim>\<open>TransactionSignature\<close> in the external library.\<close>

definition SIGHASH_ALL :: "32 word" where "SIGHASH_ALL = 0x01"
definition SIGHASH_NONE :: "32 word" where "SIGHASH_NONE = 0x02"
definition SIGHASH_SINGLE :: "32 word" where "SIGHASH_SINGLE = 0x03"
definition SIGHASH_FORKID :: "32 word" where "SIGHASH_FORKID = 0x40"
definition SIGHASH_ANYONECANPAY :: "32 word" where "SIGHASH_ANYONECANPAY = 0x80"

definition signatureScope :: "SignOutputs \<Rightarrow> bool \<Rightarrow> 32 word" where
  "signatureScope so acp =
     (let s0 = SIGHASH_FORKID;
          s1 = (if so = SignAll then or s0 SIGHASH_ALL else s0);
          s2 = (if so = SignNone then or s1 SIGHASH_NONE else s1);
          s3 = (if so = SignSingle then or s2 SIGHASH_SINGLE else s2)
      in if acp then or s3 SIGHASH_ANYONECANPAY else s3)"

text \<open>The initial working script of \<^verbatim>\<open>sign\<close>: \<^verbatim>\<open>OP_0\<close>, then one push per key of
  the instructions; parsing a key may throw inside the library.\<close>

fun writePubkeys :: "Sdk \<Rightarrow> script \<Rightarrow> string list \<Rightarrow> error + script" where
  "writePubkeys sdk s [] = Inr s"
| "writePubkeys sdk s (p # ps) =
     (case publicKeyFromString sdk p of
        None \<Rightarrow> Inl LibraryError
      | Some k \<Rightarrow> writePubkeys sdk (writeBin s (toDER k)) ps)"

text \<open>\<^verbatim>\<open>chunks.splice(start, 0, x)\<close>: a negative start counts from the end and stops
  at 0, a start past the end is the end.\<close>

definition splice_insert :: "'a list \<Rightarrow> int \<Rightarrow> 'a \<Rightarrow> 'a list" where
  "splice_insert xs start x =
     (let len = int (length xs);
          k = nat (if start < 0 then max (len + start) 0 else min start len)
      in take k xs @ [x] @ drop k xs)"

text \<open>Lines 120 to 126 of \<^verbatim>\<open>sign\<close>: the working script, created when none was
  passed to \<^verbatim>\<open>unlock\<close>.\<close>

definition initialScript :: "Sdk \<Rightarrow> UnlockArgs \<Rightarrow> error + script" where
  "initialScript sdk args =
     (case workingUnlockingScript args of
        None \<Rightarrow> writePubkeys sdk (writeOpCode [] OP_0) (pubkeys (customInstructions args))
      | Some w \<Rightarrow> Inr w)"

text \<open>Lines 147 to 149: \<^verbatim>\<open>input.sourceTXID ? input.sourceTXID :
  input.sourceTransaction?.id('hex')\<close>; an empty string is falsy.\<close>

definition resolvedSourceTXID :: "TransactionInput \<Rightarrow> string option" where
  "resolvedSourceTXID inp =
     (if sourceTXID inp \<noteq> None \<and> sourceTXID inp \<noteq> Some [] then sourceTXID inp
      else map_option tx_id (sourceTransaction inp))"

text \<open>Line 156: \<^verbatim>\<open>sourceSatoshis ||= input.sourceTransaction?.outputs[...].satoshis\<close>;
  the right side is evaluated only when the argument is falsy (absent or 0).\<close>

definition resolvedSourceSatoshis :: "UnlockArgs \<Rightarrow> TransactionInput \<Rightarrow> error + int option" where
  "resolvedSourceSatoshis args inp =
     (if sourceSatoshis args \<noteq> None \<and> sourceSatoshis args \<noteq> Some 0
      then Inr (sourceSatoshis args)
      else sourceOutputField satoshis inp)"

text \<open>Line 162: \<^verbatim>\<open>lockingScript ||= input.sourceTransaction?.outputs[...].lockingScript\<close>.\<close>

definition resolvedLockingScript :: "UnlockArgs \<Rightarrow> TransactionInput \<Rightarrow> error + script option" where
  "resolvedLockingScript args inp =
     (if unlock_lockingScript args \<noteq> None then Inr (unlock_lockingScript args)
      else sourceOutputField (\<lambda>out. Some (lockingScript out)) inp)"

text \<open>Lines 169 to 190: what is signed, and by whom.\<close>

definition signatureRequest ::
  "UnlockArgs \<Rightarrow> Transaction \<Rightarrow> nat \<Rightarrow> string \<Rightarrow> int \<Rightarrow> script \<Rightarrow> SignatureRequest" where
  "signatureRequest args tx inputIndex txid sats ls =
     (let inp = inputs tx ! inputIndex in
      \<lparr>req_sourceTXID = txid,
       req_sourceOutputIndex = sourceOutputIndex inp,
       req_sourceSatoshis = sats,
       req_transactionVersion = version tx,
       req_otherInputs = take inputIndex (inputs tx) @ drop (Suc inputIndex) (inputs tx),
       req_inputIndex = inputIndex,
       req_outputs = outputs tx,
       req_inputSequence =
         (case sequence inp of None \<Rightarrow> 0xffffffff | Some q \<Rightarrow> if q = 0 then 0xffffffff else q),
       req_subscript = ls,
       req_lockTime = lockTime tx,
       req_scope = signatureScope (signOutputs args) (anyoneCanPay args),
       req_counterparty = counterparty (customInstructions args),
       req_keyID = keyID (customInstructions args)\<rparr>)"

text \<open>Lines 196 to 199: the signature is written at the end, popped, and spliced in
  \<^verbatim>\<open>pubkeys.length\<close> chunks before the end.\<close>

definition insertSignature :: "script \<Rightarrow> nat \<Rightarrow> byte list \<Rightarrow> script" where
  "insertSignature w n sigForScript =
     (let w1 = writeBin w sigForScript;
          chunkforSig = last w1;
          w2 = butlast w1
      in splice_insert w2 (int (length w2) - int n) chunkforSig)"

text \<open>\<^verbatim>\<open>unlock(...).sign(tx, inputIndex)\<close>, one call. (The closure keeps the working
  script and the resolved value and locking script for a later call on the same object;
  between signers a new \<^verbatim>\<open>unlock\<close> is made from the script handed over.)\<close>

definition sign :: "Sdk \<Rightarrow> UnlockArgs \<Rightarrow> Transaction \<Rightarrow> nat \<Rightarrow> error + script" where
  "sign sdk args tx inputIndex =
     (case initialScript sdk args of
        Inl e \<Rightarrow> Inl e
      | Inr w \<Rightarrow>
          if length (inputs tx) \<le> inputIndex then Inl TypeError
          else
            let inp = inputs tx ! inputIndex; txid = resolvedSourceTXID inp in
            if txid = None \<or> txid = Some [] then Inl MissingSourceTXID
            else
              (case resolvedSourceSatoshis args inp of
                 Inl e \<Rightarrow> Inl e
               | Inr sats \<Rightarrow>
                   if sats = None \<or> sats = Some 0 then Inl MissingSourceSatoshis
                   else
                     (case resolvedLockingScript args inp of
                        Inl e \<Rightarrow> Inl e
                      | Inr None \<Rightarrow> Inl MissingLockingScript
                      | Inr (Some ls) \<Rightarrow>
                          (case createSignature sdk
                                  (signatureRequest args tx inputIndex (the txid) (the sats) ls) of
                             None \<Rightarrow> Inl LibraryError
                           | Some sigForScript \<Rightarrow>
                               Inr (insertSignature w
                                      (length (pubkeys (customInstructions args)))
                                      sigForScript)))))"

subsection \<open>Estimating the length of the unlocking script\<close>

text \<open>\<^verbatim>\<open>xs.indexOf(x)\<close>: the first position of \<open>x\<close>, or \<open>-1\<close>.\<close>

fun indexOf :: "'a list \<Rightarrow> 'a \<Rightarrow> int" where
  "indexOf [] x = -1"
| "indexOf (y # ys) x = (if y = x then 0 else let i = indexOf ys x in if i < 0 then -1 else i + 1)"

text \<open>\<^verbatim>\<open>chunks[i]\<close>, \<^verbatim>\<open>undefined\<close> out of range.\<close>

definition chunkAt :: "script \<Rightarrow> int \<Rightarrow> ScriptChunk option" where
  "chunkAt s i = (if 0 \<le> i \<and> i < int (length s) then Some (s ! nat i) else None)"

text \<open>Lines 213, 214 and 216 to 218 of \<^verbatim>\<open>estimateLength\<close>: the total is read from the
  chunk before the last one, the threshold from the chunk after the first
  \<^verbatim>\<open>OP_EQUALVERIFY\<close>. Reading a chunk that is \<^verbatim>\<open>undefined\<close> is a
  \<^verbatim>\<open>TypeError\<close>.\<close>

definition numberOfPubkeys :: "script \<Rightarrow> error + int" where
  "numberOfPubkeys ls =
     (case chunkAt ls (int (length ls) - 2) of
        None \<Rightarrow> Inl TypeError
      | Some totalChunk \<Rightarrow> numberFromScriptChunk totalChunk)"

definition numberOfSignatures :: "script \<Rightarrow> error + int" where
  "numberOfSignatures ls =
     (let thresholdPos = indexOf (map (\<lambda>chunk. op chunk = OP_EQUALVERIFY) ls) True + 1 in
      case chunkAt ls thresholdPos of
        None \<Rightarrow> Inl TypeError
      | Some thresholdChunk \<Rightarrow> numberFromScriptChunk thresholdChunk)"

definition staticLength :: int where
  "staticLength = 1"

text \<open>\<^verbatim>\<open>unlock(...).estimateLength(tx, inputIndex)\<close>. The closure declares its own
  \<^verbatim>\<open>lockingScript\<close> and reads none of the arguments of \<^verbatim>\<open>unlock\<close>.\<close>

definition estimateLength :: "UnlockArgs \<Rightarrow> Transaction \<Rightarrow> nat \<Rightarrow> error + int" where
  "estimateLength args tx inputIndex =
     (if length (inputs tx) \<le> inputIndex then Inl TypeError
      else
        case sourceOutputField (\<lambda>out. Some (lockingScript out)) (inputs tx ! inputIndex) of
          Inl e \<Rightarrow> Inl e
        | Inr None \<Rightarrow> Inr 1000
        | Inr (Some ls) \<Rightarrow>
            (case numberOfPubkeys ls of
               Inl e \<Rightarrow> Inl e
             | Inr n \<Rightarrow>
                 (case numberOfSignatures ls of
                    Inl e \<Rightarrow> Inl e
                  | Inr m \<Rightarrow> Inr (staticLength + m * 74 + n * 34))))"

subsection \<open>The layout of section 4.3, in the specification's words\<close>

text \<open>Numeric literals: "minimal opcode for 1-16, else push-data". A direct push of
  \<open>k\<close> bytes, \<open>0 < k < 76\<close>, has the opcode \<open>k\<close>.\<close>

definition spec_opcode :: "int \<Rightarrow> ScriptChunk" where
  "spec_opcode c = \<lparr>op = c, data = None\<rparr>"

definition spec_push :: "byte list \<Rightarrow> ScriptChunk" where
  "spec_push bs = \<lparr>op = int (length bs), data = Some bs\<rparr>"

definition spec_number :: "int \<Rightarrow> ScriptChunk" where
  "spec_number v = (if 1 \<le> v \<and> v \<le> 16 then spec_opcode (80 + v) else spec_push (toSm v))"

text \<open>Steps 1 to 5 of \<^verbatim>\<open>buildLocking\<close> for \<open>N = total\<close>, \<open>M = threshold\<close>.\<close>

definition spec_buildLocking :: "byte list \<Rightarrow> int \<Rightarrow> int \<Rightarrow> script" where
  "spec_buildLocking h M N =
     replicate (nat (N - 1)) (spec_opcode OP_CAT) @
     [spec_opcode OP_DUP, spec_opcode OP_HASH160, spec_push h, spec_opcode OP_EQUALVERIFY] @
     [spec_number M, spec_opcode OP_SWAP] @
     concat (replicate (nat (N - 1)) [spec_number 33, spec_opcode OP_SPLIT]) @
     [spec_number N, spec_opcode OP_CHECKMULTISIG]"

subsection \<open>A small instance of the external library\<close>

text \<open>The theorems below hold for every library that meets their hypotheses. This
  instance is small enough to compute with and serves to apply them to concrete inputs:
  the hash keeps 20 bytes, the address text holds one character per byte, a key string
  is read byte by byte and the wallet's signature is a marker byte followed by the bytes
  of the key id.\<close>

definition demo_hash160 :: "byte list \<Rightarrow> byte list" where
  "demo_hash160 bs = take 20 (bs @ replicate 20 0)"

definition demo_toBase58Check :: "byte list \<Rightarrow> byte list \<Rightarrow> string" where
  "demo_toBase58Check d p = map (\<lambda>b. char_of (unat b)) (p @ d)"

definition demo_fromBase58Check :: "string \<Rightarrow> (byte list \<times> byte list) option" where
  "demo_fromBase58Check str =
     (case str of
        [] \<Rightarrow> None
      | c # cs \<Rightarrow> Some ([of_nat (of_char c)], map (\<lambda>x. of_nat (of_char x)) cs))"

definition demo_sdk :: Sdk where
  "demo_sdk =
     \<lparr>hash160 = demo_hash160,
      toBase58Check = demo_toBase58Check,
      fromBase58Check = demo_fromBase58Check,
      publicKeyFromString = (\<lambda>str. Some (PublicKey (map (\<lambda>x. of_nat (of_char x)) str))),
      createSignature = (\<lambda>req. Some (0x30 # map (\<lambda>x. of_nat (of_char x)) (req_keyID req)))\<rparr>"

definition demo_key :: "byte \<Rightarrow> PublicKey" where
  "demo_key b = PublicKey (2 # replicate 32 b)"

text \<open>A 1-of-2 locking script, a source transaction with an output of 1 satoshi and an
  output of 0 satoshis, and a spending transaction with three inputs: the first two
  spend those outputs, the third has only a transaction id.\<close>

definition demo_locking_1_of_2 :: script where
  "demo_locking_1_of_2 =
     [\<lparr>op = 126, data = None\<rparr>,
      \<lparr>op = 118, data = None\<rparr>, \<lparr>op = 169, data = None\<rparr>,
      \<lparr>op = 20, data = Some (2 # replicate 19 1)\<rparr>, \<lparr>op = 136, data = None\<rparr>,
      \<lparr>op = 81, data = None\<rparr>, \<lparr>op = 124, data = None\<rparr>,
      \<lparr>op = 1, data = Some [33]\<rparr>, \<lparr>op = 127, data = None\<rparr>,
      \<lparr>op = 82, data = None\<rparr>, \<lparr>op = 174, data = None\<rparr>]"

definition demo_source :: SourceTransaction where
  "demo_source =
     \<lparr>tx_id = ''aa'',
      tx_outputs = [\<lparr>satoshis = Some 1, lockingScript = demo_locking_1_of_2\<rparr>,
                    \<lparr>satoshis = Some 0, lockingScript = demo_locking_1_of_2\<rparr>]\<rparr>"

definition demo_tx :: Transaction where
  "demo_tx =
     \<lparr>version = 1,
      inputs = [\<lparr>sourceTXID = None, sourceTransaction = Some demo_source,
                 sourceOutputIndex = 0, sequence = None\<rparr>,
                \<lparr>sourceTXID = None, sourceTransaction = Some demo_source,
                 sourceOutputIndex = 1, sequence = None\<rparr>,
                \<lparr>sourceTXID = Some ''aa'', sourceTransaction = None,
                 sourceOutputIndex = 0, sequence = None\<rparr>],
      outputs = [],
      lockTime = 0\<rparr>"

definition demo_args :: "string \<Rightarrow> script option \<Rightarrow> UnlockArgs" where
  "demo_args kid w =
     \<lparr>customInstructions = \<lparr>keyID = kid, counterparty = ''c'', pubkeys = [''A'', ''B'']\<rparr>,
      workingUnlockingScript = w,
      signOutputs = SignAll,
      anyoneCanPay = False,
      sourceSatoshis = None,
      unlock_lockingScript = None\<rparr>"

section \<open>Properties\<close>

subsection \<open>The script writer\<close>

lemma toSm_33: "toSm 33 = [33]"
  by (simp add: toSm_def le_bytes.simps Let_def)

lemma writeNumber_33: "writeNumber s 33 = s @ [\<lparr>op = 1, data = Some [33]\<rparr>]"
  by (simp add: writeNumber_def writeBin_def pushOp_def toSm_33 OP_defs)

lemma writeNumber_small:
  "1 \<le> v \<Longrightarrow> v \<le> 16 \<Longrightarrow> writeNumber s v = s @ [\<lparr>op = OP_1 + v - 1, data = None\<rparr>]"
  by (simp add: writeNumber_def)

lemma funpow_append: "((\<lambda>s. s @ ys) ^^ n) s = s @ concat (replicate n ys)"
proof (induction n arbitrary: s)
  case 0
  show ?case by simp
next
  case (Suc n)
  have "concat (replicate n ys) @ ys = ys @ concat (replicate n ys)"
    by (induction n) simp_all
  then show ?case by (simp add: Suc)
qed

lemma funpow_writeOpCode:
  "((\<lambda>s. writeOpCode s c) ^^ n) s = s @ replicate n \<lparr>op = c, data = None\<rparr>"
  using funpow_append [where ys = "[\<lparr>op = c, data = None\<rparr>]" and n = n and s = s]
  by (simp add: writeOpCode_def)

lemma funpow_split:
  "((\<lambda>s. writeOpCode (writeNumber s 33) OP_SPLIT) ^^ n) s =
     s @ concat (replicate n [\<lparr>op = 1, data = Some [33]\<rparr>, \<lparr>op = OP_SPLIT, data = None\<rparr>])"
  using funpow_append [where ys = "[\<lparr>op = 1, data = Some [33]\<rparr>, \<lparr>op = OP_SPLIT, data = None\<rparr>]"
      and n = n and s = s]
  by (simp add: writeOpCode_def writeNumber_33)

lemma pushOp_bounds: "0 \<le> pushOp h \<and> pushOp h \<le> 78"
  by (simp add: pushOp_def OP_defs)

lemma pushOp_not_EQUALVERIFY: "pushOp h \<noteq> OP_EQUALVERIFY"
  using pushOp_bounds [of h] by (simp add: OP_defs)

lemma pushOp_direct: "0 < length h \<Longrightarrow> length h < 76 \<Longrightarrow> pushOp h = int (length h)"
  by (simp add: pushOp_def OP_defs)

subsection \<open>The locking script\<close>

text \<open>The two loops of \<^verbatim>\<open>lock\<close> unrolled: the chunks of the script, for a
  threshold and a total that are written as opcodes.\<close>

lemma lock_script_layout:
  assumes "1 \<le> M" "M \<le> 16" "1 \<le> N" "N \<le> 16"
  shows "lock_script h M (Some N) =
     replicate (nat (N - 1)) \<lparr>op = OP_CAT, data = None\<rparr> @
     [\<lparr>op = OP_DUP, data = None\<rparr>, \<lparr>op = OP_HASH160, data = None\<rparr>,
      \<lparr>op = pushOp h, data = Some h\<rparr>, \<lparr>op = OP_EQUALVERIFY, data = None\<rparr>,
      \<lparr>op = OP_1 + M - 1, data = None\<rparr>, \<lparr>op = OP_SWAP, data = None\<rparr>] @
     concat (replicate (nat (N - 1)) [\<lparr>op = 1, data = Some [33]\<rparr>, \<lparr>op = OP_SPLIT, data = None\<rparr>]) @
     [\<lparr>op = OP_1 + N - 1, data = None\<rparr>, \<lparr>op = OP_CHECKMULTISIG, data = None\<rparr>]"
  unfolding lock_script_def Let_def funpow_writeOpCode funpow_split
  using assms
  by (simp add: writeNumber_small writeOpCode_def writeBin_def)

lemma lock_script_spec:
  assumes "1 \<le> M" "M \<le> 16" "1 \<le> N" "N \<le> 16" "0 < length h" "length h < 76"
  shows "lock_script h M (Some N) = spec_buildLocking h M N"
  using assms
  by (simp add: lock_script_layout spec_buildLocking_def spec_number_def spec_opcode_def
      spec_push_def toSm_33 pushOp_direct OP_1_def)

lemma foldl_append_concat: "foldl (\<lambda>a b. a @ b) acc xs = acc @ concat xs"
  by (induction xs arbitrary: acc) simp_all

lemma concatPubkeys_concat: "concatPubkeys pks = concat (map toDER pks)"
  by (simp add: concatPubkeys_def foldl_append_concat)

lemma lock_explicit:
  "2 \<le> length ks \<Longrightarrow>
   lock sdk None (Some ks) (Some M) =
     (if M < 1 \<or> M > int (length ks) then Inl ThresholdOutOfRange
      else if int (length ks) > 10 then Inl TooManyParticipants
      else Inr (lock_script (hash160 sdk (concatPubkeys ks)) M (Some (int (length ks)))))"
  by (auto simp: lock_def Let_def)

lemma lock_address:
  "a \<noteq> [] \<Longrightarrow>
   thresholdAndTotalFromAddress sdk a =
     Inr \<lparr>dec_hash = h, dec_threshold = Some M, dec_total = Some N\<rparr> \<Longrightarrow>
   lock sdk (Some a) pks thr =
     (if M < 1 \<or> M > N then Inl ThresholdOutOfRange
      else if N > 10 then Inl TooManyParticipants
      else Inr (lock_script h M (Some N)))"
  by (auto simp: lock_def Let_def)

text \<open>The scripts \<^verbatim>\<open>lock\<close> can return: the one for a threshold and a total in range,
  or, from an address whose payload ends before the total, the one for an undefined
  total.\<close>

lemma lock_Inr_cases:
  assumes "lock sdk addr pks thr = Inr ls"
  shows "(\<exists>h M N. ls = lock_script h M (Some N) \<and> 1 \<le> M \<and> M \<le> N \<and> N \<le> 10)
       \<or> (\<exists>h M. ls = lock_script h M None \<and> 1 \<le> M)"
  using assms
  by (simp add: lock_def Let_def not_less split: if_splits sum.splits option.splits prod.splits)
    (blast | force)+

lemma lock_script_undefined_total:
  assumes "1 \<le> M" "M \<le> 16"
  shows "lock_script h M None =
     [\<lparr>op = OP_DUP, data = None\<rparr>, \<lparr>op = OP_HASH160, data = None\<rparr>,
      \<lparr>op = pushOp h, data = Some h\<rparr>, \<lparr>op = OP_EQUALVERIFY, data = None\<rparr>,
      \<lparr>op = OP_1 + M - 1, data = None\<rparr>, \<lparr>op = OP_SWAP, data = None\<rparr>,
      \<lparr>op = OP_0, data = None\<rparr>, \<lparr>op = OP_CHECKMULTISIG, data = None\<rparr>]"
  using assms
  by (simp add: lock_script_def Let_def writeNumber_small writeOpCode_def writeBin_def
      writeNumber_def)

text \<open>
  \<^bold>\<open>C1.\<close> For a commitment with total \<open>N\<close>, \<open>2 \<le> N \<le> 10\<close>, threshold \<open>M\<close>,
  \<open>1 \<le> M \<le> N\<close>, and a 20-byte hash, \<^verbatim>\<open>lock\<close> returns exactly the sequence of
  section 4.3: \<open>N - 1\<close> times \<^verbatim>\<open>OP_CAT\<close>; \<^verbatim>\<open>OP_DUP OP_HASH160 <hash> OP_EQUALVERIFY\<close>;
  \<open>push(M)\<close> \<^verbatim>\<open>OP_SWAP\<close>; \<open>N - 1\<close> times \<open>push(33)\<close> \<^verbatim>\<open>OP_SPLIT\<close>; \<open>push(N)\<close>
  \<^verbatim>\<open>OP_CHECKMULTISIG\<close>, the numbers 1 to 16 as single opcodes and 33 as push-data.
  The commitment comes from an explicit key list or from a decoded address.
\<close>

theorem C1_lock_opcode_sequence:
  assumes "2 \<le> N" "N \<le> 10" "1 \<le> M" "M \<le> N" "length h = 20"
    and "(addr = None \<or> addr = Some []) \<and> pks = Some ks \<and> int (length ks) = N \<and> thr = Some M
           \<and> hash160 sdk (concatPubkeys ks) = h
         \<or> (\<exists>a. addr = Some a \<and> a \<noteq> [] \<and>
                thresholdAndTotalFromAddress sdk a =
                  Inr \<lparr>dec_hash = h, dec_threshold = Some M, dec_total = Some N\<rparr>)"
  shows "lock sdk addr pks thr = Inr (spec_buildLocking h M N)"
proof -
  have spec: "lock_script h M (Some N) = spec_buildLocking h M N"
    using assms(1-5) by (intro lock_script_spec) simp_all
  from assms(6) consider
      (explicit) "addr = None \<or> addr = Some []" "pks = Some ks" "int (length ks) = N"
        "thr = Some M" "hash160 sdk (concatPubkeys ks) = h"
    | (decoded) a where "addr = Some a" "a \<noteq> []"
        "thresholdAndTotalFromAddress sdk a =
           Inr \<lparr>dec_hash = h, dec_threshold = Some M, dec_total = Some N\<rparr>"
    by blast
  then show ?thesis
  proof cases
    case explicit
    with assms(1-4) spec show ?thesis
      by (auto simp: lock_def Let_def)
  next
    case decoded
    with assms(1-4) spec show ?thesis
      by (simp add: lock_address)
  qed
qed

theorem C1_lock_opcode_sequence_witness:
  "lock demo_sdk None (Some [demo_key 1, demo_key 2, demo_key 3]) (Some 2) =
     Inr [\<lparr>op = 126, data = None\<rparr>, \<lparr>op = 126, data = None\<rparr>,
          \<lparr>op = 118, data = None\<rparr>, \<lparr>op = 169, data = None\<rparr>,
          \<lparr>op = 20, data = Some (2 # replicate 19 1)\<rparr>, \<lparr>op = 136, data = None\<rparr>,
          \<lparr>op = 82, data = None\<rparr>, \<lparr>op = 124, data = None\<rparr>,
          \<lparr>op = 1, data = Some [33]\<rparr>, \<lparr>op = 127, data = None\<rparr>,
          \<lparr>op = 1, data = Some [33]\<rparr>, \<lparr>op = 127, data = None\<rparr>,
          \<lparr>op = 83, data = None\<rparr>, \<lparr>op = 174, data = None\<rparr>]"
proof -
  have h: "hash160 demo_sdk (concatPubkeys [demo_key 1, demo_key 2, demo_key 3]) = 2 # replicate 19 1"
    by (simp add: demo_sdk_def demo_hash160_def demo_key_def concatPubkeys_def)
  have "lock demo_sdk None (Some [demo_key 1, demo_key 2, demo_key 3]) (Some 2) =
          Inr (spec_buildLocking (2 # replicate 19 1) 2 3)"
    using C1_lock_opcode_sequence [where N = 3 and M = 2 and h = "2 # replicate 19 1"
        and addr = None and pks = "Some [demo_key 1, demo_key 2, demo_key 3]"
        and ks = "[demo_key 1, demo_key 2, demo_key 3]" and thr = "Some 2" and sdk = demo_sdk] h
    by simp
  then show ?thesis
    by (simp add: spec_buildLocking_def spec_number_def spec_opcode_def spec_push_def toSm_33
        OP_defs numeral_2_eq_2)
qed

subsection \<open>Decoding the commitment of a locking script\<close>

lemma indexOf_ge: "-1 \<le> indexOf xs x"
  by (induction xs) (auto simp: Let_def)

lemma indexOf_append_notin:
  "x \<notin> set xs \<Longrightarrow>
   indexOf (xs @ ys) x = (if indexOf ys x < 0 then -1 else int (length xs) + indexOf ys x)"
  using indexOf_ge [of ys x] by (induction xs) (auto simp: Let_def)

lemma chunkAt_append_right:
  "chunkAt (xs @ ys) (int (length xs) + i) = chunkAt ys i" if "0 \<le> i"
  using that by (auto simp: chunkAt_def nth_append nat_add_distrib)

lemma numberOfPubkeys_lock_script:
  assumes "1 \<le> M" "M \<le> 16" "1 \<le> N" "N \<le> 16"
  shows "numberOfPubkeys (lock_script h M (Some N)) = Inr N"
proof -
  obtain xs where ls: "lock_script h M (Some N) =
      xs @ [\<lparr>op = OP_1 + N - 1, data = None\<rparr>, \<lparr>op = OP_CHECKMULTISIG, data = None\<rparr>]"
    using lock_script_layout [OF assms, of h] by (metis append.assoc)
  have "chunkAt (lock_script h M (Some N)) (int (length (lock_script h M (Some N))) - 2)
        = Some \<lparr>op = OP_1 + N - 1, data = None\<rparr>"
    unfolding ls by (simp add: chunkAt_def nth_append)
  then show ?thesis
    by (simp add: numberOfPubkeys_def numberFromScriptChunk_def)
qed

text \<open>No chunk before the real \<^verbatim>\<open>OP_EQUALVERIFY\<close> has that opcode: the opcode of the
  push of the hash is at most 78.\<close>

lemma numberOfSignatures_lock_script:
  assumes "1 \<le> M" "M \<le> 16" "1 \<le> N" "N \<le> 16"
  shows "numberOfSignatures (lock_script h M (Some N)) = Inr M"
proof -
  define pre where "pre = replicate (nat (N - 1)) \<lparr>op = OP_CAT, data = None\<rparr> @
     [\<lparr>op = OP_DUP, data = None\<rparr>, \<lparr>op = OP_HASH160, data = None\<rparr>,
      \<lparr>op = pushOp h, data = Some h\<rparr>]"
  define e where "e = \<lparr>op = OP_EQUALVERIFY, data = None\<rparr>"
  define m where "m = \<lparr>op = OP_1 + M - 1, data = None\<rparr>"
  obtain ys where ls: "lock_script h M (Some N) = pre @ e # m # ys"
    using lock_script_layout [OF assms, of h] by (simp add: pre_def e_def m_def)
  let ?P = "\<lambda>chunk. op chunk = OP_EQUALVERIFY"
  have notin: "True \<notin> set (map ?P pre)"
    using pushOp_not_EQUALVERIFY [of h] by (auto simp: pre_def OP_defs)
  have "indexOf (map ?P (pre @ e # m # ys)) True = int (length pre)"
    unfolding map_append using indexOf_append_notin [OF notin] by (simp add: e_def)
  moreover have "chunkAt (pre @ e # m # ys) (int (length pre) + 1) = Some m"
    using chunkAt_append_right [of 1 pre "e # m # ys"] by (simp add: chunkAt_def)
  ultimately show ?thesis
    by (simp add: numberOfSignatures_def numberFromScriptChunk_def Let_def ls m_def)
qed

lemma demo_lock_1_of_2:
  "lock demo_sdk None (Some [demo_key 1, demo_key 2]) (Some 1) = Inr demo_locking_1_of_2"
  by (simp add: lock_explicit lock_script_layout demo_sdk_def demo_hash160_def demo_key_def
      concatPubkeys_def pushOp_def OP_defs demo_locking_1_of_2_def)

text \<open>
  \<^bold>\<open>C5.\<close> For \<open>1 \<le> M \<le> N \<le> 10\<close>, \<open>N \<ge> 2\<close>, \<^verbatim>\<open>lock\<close> on a list of \<open>N\<close> keys with
  threshold \<open>M\<close> returns a script, and reading that script as \<^verbatim>\<open>estimateLength\<close> does
  (the chunk after \<^verbatim>\<open>OP_EQUALVERIFY\<close>, the chunk before the last) gives back \<open>M\<close> and
  \<open>N\<close>.
\<close>

theorem C5_decode_lock_roundtrip:
  assumes "1 \<le> M" "M \<le> N" "N \<le> 10" "2 \<le> N" "int (length ks) = N"
  shows "\<exists>ls. lock sdk None (Some ks) (Some M) = Inr ls
             \<and> numberOfSignatures ls = Inr M \<and> numberOfPubkeys ls = Inr N"
proof -
  have "lock sdk None (Some ks) (Some M) =
          Inr (lock_script (hash160 sdk (concatPubkeys ks)) M (Some N))"
    using assms by (simp add: lock_explicit)
  moreover have "numberOfSignatures (lock_script (hash160 sdk (concatPubkeys ks)) M (Some N)) = Inr M"
    using assms by (intro numberOfSignatures_lock_script) simp_all
  moreover have "numberOfPubkeys (lock_script (hash160 sdk (concatPubkeys ks)) M (Some N)) = Inr N"
    using assms by (intro numberOfPubkeys_lock_script) simp_all
  ultimately show ?thesis by simp
qed

theorem C5_decode_lock_roundtrip_witness:
  "lock demo_sdk None (Some [demo_key 1, demo_key 2]) (Some 1) = Inr demo_locking_1_of_2
   \<and> numberOfSignatures demo_locking_1_of_2 = Inr 1
   \<and> numberOfPubkeys demo_locking_1_of_2 = Inr 2"
  using C5_decode_lock_roundtrip [where M = 1 and N = 2 and ks = "[demo_key 1, demo_key 2]"
      and sdk = demo_sdk]
  by (simp add: demo_lock_1_of_2)

subsection \<open>The length estimate\<close>

text \<open>
  \<^bold>\<open>C3.\<close> When the output spent by the input carries the script that \<^verbatim>\<open>lock\<close> built
  for a threshold \<open>M\<close> and a total \<open>N\<close>, \<open>2 \<le> N \<le> 10\<close>, \<open>1 \<le> M \<le> N\<close> (from a list
  of \<open>N\<close> keys, or from an address that decodes to \<open>M\<close> and \<open>N\<close>), the two numbers
  read from the script are \<open>M\<close> and \<open>N\<close>, and \<^verbatim>\<open>estimateLength\<close> returns
  \<open>staticLength + M * 74 + N * 34\<close> (\<open>staticLength\<close> is 1).
\<close>

theorem C3_estimateLength:
  assumes "2 \<le> N" "N \<le> 10" "1 \<le> M" "M \<le> N"
    and "(addr = None \<or> addr = Some []) \<and> pks = Some ks \<and> int (length ks) = N \<and> thr = Some M
         \<or> (\<exists>a h. addr = Some a \<and> a \<noteq> [] \<and>
                thresholdAndTotalFromAddress sdk a =
                  Inr \<lparr>dec_hash = h, dec_threshold = Some M, dec_total = Some N\<rparr>)"
    and "lock sdk addr pks thr = Inr ls"
    and "inputIndex < length (inputs tx)"
    and "sourceTransaction (inputs tx ! inputIndex) = Some st"
    and "sourceOutputIndex (inputs tx ! inputIndex) < length (tx_outputs st)"
    and "lockingScript (tx_outputs st ! sourceOutputIndex (inputs tx ! inputIndex)) = ls"
  shows "numberOfSignatures ls = Inr M \<and> numberOfPubkeys ls = Inr N
       \<and> estimateLength args tx inputIndex = Inr (staticLength + M * 74 + N * 34)"
proof -
  from assms(5) consider
      (explicit) "addr = None \<or> addr = Some []" "pks = Some ks" "int (length ks) = N"
        "thr = Some M"
    | (decoded) a h where "addr = Some a" "a \<noteq> []"
        "thresholdAndTotalFromAddress sdk a =
           Inr \<lparr>dec_hash = h, dec_threshold = Some M, dec_total = Some N\<rparr>"
    by blast
  then have "\<exists>h. lock sdk addr pks thr = Inr (lock_script h M (Some N))"
  proof cases
    case explicit
    with assms(1-4) show ?thesis
      by (auto simp: lock_def Let_def)
  next
    case decoded
    with assms(1-4) show ?thesis
      by (auto simp: lock_address)
  qed
  with assms(6) obtain h where ls: "ls = lock_script h M (Some N)"
    by auto
  have m: "numberOfSignatures ls = Inr M"
    unfolding ls using assms(1-4) by (intro numberOfSignatures_lock_script) simp_all
  have n: "numberOfPubkeys ls = Inr N"
    unfolding ls using assms(1-4) by (intro numberOfPubkeys_lock_script) simp_all
  have "estimateLength args tx inputIndex = Inr (staticLength + M * 74 + N * 34)"
    using assms(7-10) m n by (simp add: estimateLength_def sourceOutputField_def)
  with m n show ?thesis by simp
qed

theorem C3_estimateLength_witness:
  "lock demo_sdk None (Some [demo_key 1, demo_key 2]) (Some 1) = Inr demo_locking_1_of_2
   \<and> numberOfSignatures demo_locking_1_of_2 = Inr 1
   \<and> numberOfPubkeys demo_locking_1_of_2 = Inr 2
   \<and> estimateLength (demo_args ''k'' None) demo_tx 0 = Inr (1 + 1 * 74 + 2 * 34)"
  using C3_estimateLength [where N = 2 and M = 1 and addr = None
      and pks = "Some [demo_key 1, demo_key 2]" and ks = "[demo_key 1, demo_key 2]"
      and thr = "Some 1" and sdk = demo_sdk and ls = demo_locking_1_of_2 and tx = demo_tx
      and inputIndex = 0 and st = demo_source and args = "demo_args ''k'' None"]
  by (simp add: demo_lock_1_of_2 demo_tx_def demo_source_def staticLength_def)

text \<open>The hypothesis on \<open>M\<close> and \<open>N\<close> is needed. From an address whose payload is the
  hash and one more byte, \<^verbatim>\<open>lock\<close> reads the threshold and an undefined total and still
  returns a script; the chunk before the last is then \<^verbatim>\<open>OP_0\<close>, which is read as
  \<open>1 + 0 - 81\<close>.\<close>

lemma numberOfPubkeys_undefined_total:
  assumes "1 \<le> M" "M \<le> 16"
  shows "numberOfPubkeys (lock_script h M None) = Inr (- 80)"
  unfolding lock_script_undefined_total [OF assms]
  by (simp add: numberOfPubkeys_def chunkAt_def numberFromScriptChunk_def OP_defs)

subsection \<open>Errors of \<^verbatim>\<open>lock\<close>\<close>

text \<open>
  \<^bold>\<open>C6.\<close> As stated the claim fails twice on a call with an explicit key list: with a
  single key and threshold 0 the call fails for want of keys, not with the threshold
  error; with 11 keys and threshold 0 it fails with the threshold error, not with the
  error for too many participants. The tests come in this order: fewer than two keys,
  then the threshold, then the total.
\<close>

theorem C6_counterexample:
  "lock demo_sdk None (Some [demo_key 1]) (Some 0) = Inl InsufficientKeys
   \<and> lock demo_sdk None (Some (replicate 11 (demo_key 1))) (Some 0) = Inl ThresholdOutOfRange"
  by (simp add: lock_def Let_def)

text \<open>
  \<^bold>\<open>C6, amended.\<close> For a call to \<^verbatim>\<open>lock\<close> with an explicit list of \<open>N\<close> keys and
  threshold \<open>M\<close>: with \<open>N < 2\<close> it fails with the error for too few keys; with \<open>N \<ge> 2\<close>
  and \<open>M < 1\<close> or \<open>M > N\<close> it fails with the threshold error (also when \<open>N > 10\<close>);
  with \<open>1 \<le> M \<le> N\<close> and \<open>N > 10\<close> it fails with the error for too many participants.
\<close>

theorem C6_lock_errors:
  "(length ks < 2 \<longrightarrow> lock sdk None (Some ks) (Some M) = Inl InsufficientKeys)
   \<and> (2 \<le> length ks \<and> (M < 1 \<or> M > int (length ks)) \<longrightarrow>
        lock sdk None (Some ks) (Some M) = Inl ThresholdOutOfRange)
   \<and> (2 \<le> length ks \<and> 1 \<le> M \<and> M \<le> int (length ks) \<and> 10 < length ks \<longrightarrow>
        lock sdk None (Some ks) (Some M) = Inl TooManyParticipants)"
  by (auto simp: lock_explicit) (auto simp: lock_def Let_def)

theorem C6_lock_errors_witness:
  "lock demo_sdk None (Some [demo_key 1, demo_key 2]) (Some 0) = Inl ThresholdOutOfRange
   \<and> lock demo_sdk None (Some [demo_key 1, demo_key 2]) (Some 3) = Inl ThresholdOutOfRange
   \<and> lock demo_sdk None (Some [demo_key 1]) (Some 1) = Inl InsufficientKeys
   \<and> lock demo_sdk None (Some (replicate 11 (demo_key 1))) (Some 3) = Inl TooManyParticipants"
  using C6_lock_errors [of "[demo_key 1, demo_key 2]" demo_sdk 0]
    C6_lock_errors [of "[demo_key 1, demo_key 2]" demo_sdk 3]
    C6_lock_errors [of "[demo_key 1]" demo_sdk 1]
    C6_lock_errors [of "replicate 11 (demo_key 1)" demo_sdk 3]
  by simp

subsection \<open>Signing\<close>

lemma insertSignature_before_suffix:
  "insertSignature (pre @ suf) (length suf) b = pre @ [\<lparr>op = pushOp b, data = Some b\<rparr>] @ suf"
proof -
  have bl: "butlast (writeBin (pre @ suf) b) = pre @ suf"
    and la: "last (writeBin (pre @ suf) b) = \<lparr>op = pushOp b, data = Some b\<rparr>"
    by (simp_all add: writeBin_def butlast_append)
  show ?thesis
    unfolding insertSignature_def Let_def bl la
    by (simp add: splice_insert_def Let_def)
qed

lemma writePubkeys_Inr:
  "writePubkeys sdk s ps = Inr w \<Longrightarrow>
   \<exists>ks. map (publicKeyFromString sdk) ps = map Some ks
        \<and> w = s @ map (\<lambda>k. \<lparr>op = pushOp (toDER k), data = Some (toDER k)\<rparr>) ks"
proof (induction ps arbitrary: s)
  case Nil
  then show ?case by simp
next
  case (Cons p ps)
  then obtain k where k: "publicKeyFromString sdk p = Some k"
    and rest: "writePubkeys sdk (writeBin s (toDER k)) ps = Inr w"
    by (auto split: option.splits)
  from Cons.IH [OF rest] obtain ks where
    "map (publicKeyFromString sdk) ps = map Some ks"
    "w = writeBin s (toDER k) @ map (\<lambda>k. \<lparr>op = pushOp (toDER k), data = Some (toDER k)\<rparr>) ks"
    by blast
  with k show ?case
    by (intro exI [of _ "k # ks"]) (simp add: writeBin_def)
qed

lemma writePubkeys_total:
  "\<forall>p \<in> set ps. publicKeyFromString sdk p \<noteq> None \<Longrightarrow> \<exists>w. writePubkeys sdk s ps = Inr w"
  by (induction ps arbitrary: s) (auto split: option.splits)

text \<open>What a successful call has done.\<close>

lemma sign_Inr_D:
  assumes "sign sdk args tx inputIndex = Inr w'"
  shows "\<exists>w req sigForScript.
           initialScript sdk args = Inr w
         \<and> createSignature sdk req = Some sigForScript
         \<and> w' = insertSignature w (length (pubkeys (customInstructions args))) sigForScript"
proof -
  obtain w where w: "initialScript sdk args = Inr w"
    using assms by (cases "initialScript sdk args") (simp_all add: sign_def)
  show ?thesis
    using assms unfolding sign_def w Let_def
    by (simp split: sum.splits option.splits if_splits) blast+
qed

text \<open>A call succeeds when the context resolves and the wallet signs.\<close>

lemma sign_succeeds:
  assumes "initialScript sdk args = Inr w"
    and "inputIndex < length (inputs tx)"
    and "resolvedSourceTXID (inputs tx ! inputIndex) = Some txid" "txid \<noteq> []"
    and "resolvedSourceSatoshis args (inputs tx ! inputIndex) = Inr (Some sats)" "sats \<noteq> 0"
    and "resolvedLockingScript args (inputs tx ! inputIndex) = Inr (Some ls)"
    and "createSignature sdk (signatureRequest args tx inputIndex txid sats ls) = Some sigForScript"
  shows "sign sdk args tx inputIndex =
           Inr (insertSignature w (length (pubkeys (customInstructions args))) sigForScript)"
  using assms by (simp add: sign_def Let_def)

text \<open>
  \<^bold>\<open>C2.\<close> A successful call to \<^verbatim>\<open>sign\<close> on a prior working script
  \<open>[OP_0, sig_1, ..., sig_k, pubkey_1, ..., pubkey_N]\<close>, \<open>N\<close> the number of keys in the
  instructions, returns \<open>[OP_0, sig_1, ..., sig_k, sig, pubkey_1, ..., pubkey_N]\<close>, where
  \<open>sig\<close> is the push of the signature the wallet has just made. Without a prior script
  the call starts from \<open>[OP_0, pubkey_1, ..., pubkey_N]\<close> and returns
  \<open>[OP_0, sig, pubkey_1, ..., pubkey_N]\<close>.
\<close>

theorem C2_sign_inserts_before_pubkeys:
  assumes "sign sdk args tx inputIndex = Inr w'"
  shows "(\<forall>sigs pubs.
            workingUnlockingScript args = Some (\<lparr>op = OP_0, data = None\<rparr> # sigs @ pubs)
            \<and> length pubs = length (pubkeys (customInstructions args)) \<longrightarrow>
            (\<exists>req sigForScript. createSignature sdk req = Some sigForScript \<and>
               w' = \<lparr>op = OP_0, data = None\<rparr> # sigs
                      @ [\<lparr>op = pushOp sigForScript, data = Some sigForScript\<rparr>] @ pubs))
       \<and> (workingUnlockingScript args = None \<longrightarrow>
            (\<exists>req sigForScript ks. createSignature sdk req = Some sigForScript \<and>
               map (publicKeyFromString sdk) (pubkeys (customInstructions args)) = map Some ks \<and>
               w' = \<lparr>op = OP_0, data = None\<rparr>
                      # [\<lparr>op = pushOp sigForScript, data = Some sigForScript\<rparr>]
                      @ map (\<lambda>k. \<lparr>op = pushOp (toDER k), data = Some (toDER k)\<rparr>) ks))"
proof (intro conjI allI impI)
  fix sigs pubs
  assume prior: "workingUnlockingScript args = Some (\<lparr>op = OP_0, data = None\<rparr> # sigs @ pubs)
      \<and> length pubs = length (pubkeys (customInstructions args))"
  from sign_Inr_D [OF assms] prior obtain req sigForScript where
    sig: "createSignature sdk req = Some sigForScript" and
    w': "w' = insertSignature ((\<lparr>op = OP_0, data = None\<rparr> # sigs) @ pubs) (length pubs) sigForScript"
    by (auto simp: initialScript_def)
  show "\<exists>req sigForScript. createSignature sdk req = Some sigForScript \<and>
          w' = \<lparr>op = OP_0, data = None\<rparr> # sigs
                 @ [\<lparr>op = pushOp sigForScript, data = Some sigForScript\<rparr>] @ pubs"
    using sig w' unfolding insertSignature_before_suffix by auto
next
  assume none: "workingUnlockingScript args = None"
  from sign_Inr_D [OF assms] none obtain w req sigForScript where
    init: "writePubkeys sdk (writeOpCode [] OP_0) (pubkeys (customInstructions args)) = Inr w" and
    sig: "createSignature sdk req = Some sigForScript" and
    w': "w' = insertSignature w (length (pubkeys (customInstructions args))) sigForScript"
    by (auto simp: initialScript_def)
  from writePubkeys_Inr [OF init] obtain ks where
    ks: "map (publicKeyFromString sdk) (pubkeys (customInstructions args)) = map Some ks" and
    w: "w = [\<lparr>op = OP_0, data = None\<rparr>]
            @ map (\<lambda>k. \<lparr>op = pushOp (toDER k), data = Some (toDER k)\<rparr>) ks"
    by (auto simp: writeOpCode_def)
  have len: "length (pubkeys (customInstructions args)) = length ks"
    using ks by (metis length_map)
  have "w' = [\<lparr>op = OP_0, data = None\<rparr>] @ [\<lparr>op = pushOp sigForScript, data = Some sigForScript\<rparr>]
            @ map (\<lambda>k. \<lparr>op = pushOp (toDER k), data = Some (toDER k)\<rparr>) ks"
    unfolding w' w len
    using insertSignature_before_suffix [of "[\<lparr>op = OP_0, data = None\<rparr>]"
        "map (\<lambda>k. \<lparr>op = pushOp (toDER k), data = Some (toDER k)\<rparr>) ks" sigForScript]
    by simp
  with sig ks show "\<exists>req sigForScript ks. createSignature sdk req = Some sigForScript \<and>
      map (publicKeyFromString sdk) (pubkeys (customInstructions args)) = map Some ks \<and>
      w' = \<lparr>op = OP_0, data = None\<rparr> # [\<lparr>op = pushOp sigForScript, data = Some sigForScript\<rparr>]
             @ map (\<lambda>k. \<lparr>op = pushOp (toDER k), data = Some (toDER k)\<rparr>) ks"
    by auto
qed

text \<open>Two rounds of signing on the small instance: the key ids \<open>k\<close> and \<open>j\<close> sign in
  turn, and the second signature comes after the first.\<close>

lemma demo_sign_first:
  "sign demo_sdk (demo_args ''k'' None) demo_tx 0 =
     Inr [\<lparr>op = 0, data = None\<rparr>, \<lparr>op = 2, data = Some [0x30, 0x6b]\<rparr>,
          \<lparr>op = 1, data = Some [0x41]\<rparr>, \<lparr>op = 1, data = Some [0x42]\<rparr>]"
  by (simp add: sign_def initialScript_def demo_args_def demo_sdk_def demo_tx_def demo_source_def
      resolvedSourceTXID_def resolvedSourceSatoshis_def resolvedLockingScript_def
      sourceOutputField_def signatureRequest_def insertSignature_def splice_insert_def
      writeBin_def writeOpCode_def pushOp_def OP_defs Let_def)

lemma demo_sign_second:
  "sign demo_sdk
     (demo_args ''j'' (Some [\<lparr>op = 0, data = None\<rparr>, \<lparr>op = 2, data = Some [0x30, 0x6b]\<rparr>,
                            \<lparr>op = 1, data = Some [0x41]\<rparr>, \<lparr>op = 1, data = Some [0x42]\<rparr>]))
     demo_tx 0 =
     Inr [\<lparr>op = 0, data = None\<rparr>, \<lparr>op = 2, data = Some [0x30, 0x6b]\<rparr>,
          \<lparr>op = 2, data = Some [0x30, 0x6a]\<rparr>,
          \<lparr>op = 1, data = Some [0x41]\<rparr>, \<lparr>op = 1, data = Some [0x42]\<rparr>]"
  by (simp add: sign_def initialScript_def demo_args_def demo_sdk_def demo_tx_def demo_source_def
      resolvedSourceTXID_def resolvedSourceSatoshis_def resolvedLockingScript_def
      sourceOutputField_def signatureRequest_def insertSignature_def splice_insert_def
      writeBin_def writeOpCode_def pushOp_def OP_defs Let_def)

theorem C2_sign_inserts_before_pubkeys_witness:
  "sign demo_sdk
     (demo_args ''j'' (Some [\<lparr>op = 0, data = None\<rparr>, \<lparr>op = 2, data = Some [0x30, 0x6b]\<rparr>,
                            \<lparr>op = 1, data = Some [0x41]\<rparr>, \<lparr>op = 1, data = Some [0x42]\<rparr>]))
     demo_tx 0 =
     Inr [\<lparr>op = 0, data = None\<rparr>, \<lparr>op = 2, data = Some [0x30, 0x6b]\<rparr>,
          \<lparr>op = 2, data = Some [0x30, 0x6a]\<rparr>,
          \<lparr>op = 1, data = Some [0x41]\<rparr>, \<lparr>op = 1, data = Some [0x42]\<rparr>]
   \<and> (\<exists>req sigForScript. createSignature demo_sdk req = Some sigForScript \<and>
          [\<lparr>op = 0, data = None\<rparr>, \<lparr>op = 2, data = Some [0x30, 0x6b]\<rparr>,
           \<lparr>op = 2, data = Some [0x30, 0x6a]\<rparr>,
           \<lparr>op = 1, data = Some [0x41]\<rparr>, \<lparr>op = 1, data = Some [0x42]\<rparr>] =
          \<lparr>op = OP_0, data = None\<rparr> # [\<lparr>op = 2, data = Some [0x30, 0x6b]\<rparr>]
            @ [\<lparr>op = pushOp sigForScript, data = Some sigForScript\<rparr>]
            @ [\<lparr>op = 1, data = Some [0x41]\<rparr>, \<lparr>op = 1, data = Some [0x42]\<rparr>])"
proof -
  note C2 = C2_sign_inserts_before_pubkeys [OF demo_sign_second, THEN conjunct1, rule_format,
      of "[\<lparr>op = 2, data = Some [0x30, 0x6b]\<rparr>]"
         "[\<lparr>op = 1, data = Some [0x41]\<rparr>, \<lparr>op = 1, data = Some [0x42]\<rparr>]"]
  have "\<exists>req sigForScript. createSignature demo_sdk req = Some sigForScript \<and>
          [\<lparr>op = 0, data = None\<rparr>, \<lparr>op = 2, data = Some [0x30, 0x6b]\<rparr>,
           \<lparr>op = 2, data = Some [0x30, 0x6a]\<rparr>,
           \<lparr>op = 1, data = Some [0x41]\<rparr>, \<lparr>op = 1, data = Some [0x42]\<rparr>] =
          \<lparr>op = OP_0, data = None\<rparr> # [\<lparr>op = 2, data = Some [0x30, 0x6b]\<rparr>]
            @ [\<lparr>op = pushOp sigForScript, data = Some sigForScript\<rparr>]
            @ [\<lparr>op = 1, data = Some [0x41]\<rparr>, \<lparr>op = 1, data = Some [0x42]\<rparr>]"
    by (rule C2) (simp add: demo_args_def OP_0_def)
  with demo_sign_second show ?thesis by blast
qed

text \<open>
  \<^bold>\<open>C9.\<close> When the value of the spent output is 0 wherever it is given (the argument
  \<^verbatim>\<open>sourceSatoshis\<close> of \<^verbatim>\<open>unlock\<close> is absent or 0, and the output of the attached
  source transaction, if there is one, has no value or the value 0), and the working
  script and the transaction id are available, \<^verbatim>\<open>sign\<close> throws the error for missing
  \<^verbatim>\<open>sourceSatoshis\<close>: 0 is treated as absent.
\<close>

theorem C9_zero_satoshis_rejected:
  assumes "inputIndex < length (inputs tx)"
    and "workingUnlockingScript args = None \<longrightarrow>
           (\<forall>p \<in> set (pubkeys (customInstructions args)). publicKeyFromString sdk p \<noteq> None)"
    and "(\<exists>t. sourceTXID (inputs tx ! inputIndex) = Some t \<and> t \<noteq> [])
         \<or> (\<exists>st. sourceTransaction (inputs tx ! inputIndex) = Some st \<and> tx_id st \<noteq> [])"
    and "sourceSatoshis args = None \<or> sourceSatoshis args = Some 0"
    and "case sourceTransaction (inputs tx ! inputIndex) of
           None \<Rightarrow> True
         | Some st \<Rightarrow>
             sourceOutputIndex (inputs tx ! inputIndex) < length (tx_outputs st) \<and>
             (satoshis (tx_outputs st ! sourceOutputIndex (inputs tx ! inputIndex)) = None \<or>
              satoshis (tx_outputs st ! sourceOutputIndex (inputs tx ! inputIndex)) = Some 0)"
  shows "sign sdk args tx inputIndex = Inl MissingSourceSatoshis"
proof -
  let ?inp = "inputs tx ! inputIndex"
  obtain w where w: "initialScript sdk args = Inr w"
    using assms(2) writePubkeys_total [of "pubkeys (customInstructions args)" sdk]
    by (cases "workingUnlockingScript args") (auto simp: initialScript_def)
  have txid: "resolvedSourceTXID ?inp \<noteq> None \<and> resolvedSourceTXID ?inp \<noteq> Some []"
    using assms(3) by (auto simp: resolvedSourceTXID_def)
  have sats: "resolvedSourceSatoshis args ?inp = Inr None
            \<or> resolvedSourceSatoshis args ?inp = Inr (Some 0)"
    using assms(4,5)
    by (auto simp: resolvedSourceSatoshis_def sourceOutputField_def split: option.splits)
  from sats show ?thesis
    using assms(1) txid by (auto simp: sign_def w Let_def)
qed

theorem C9_zero_satoshis_rejected_witness:
  "sign demo_sdk (demo_args ''k'' None) demo_tx 1 = Inl MissingSourceSatoshis
   \<and> sign demo_sdk ((demo_args ''k'' None)\<lparr>sourceSatoshis := Some 0\<rparr>) demo_tx 2
       = Inl MissingSourceSatoshis"
  using C9_zero_satoshis_rejected [of 1 demo_tx "demo_args ''k'' None" demo_sdk]
    C9_zero_satoshis_rejected [of 2 demo_tx "(demo_args ''k'' None)\<lparr>sourceSatoshis := Some 0\<rparr>" demo_sdk]
  by (simp add: demo_tx_def demo_args_def demo_sdk_def demo_source_def)

text \<open>An argument of 0 is the same as no argument, whatever the input.\<close>

lemma sign_zero_satoshis_as_absent:
  "sign sdk (args\<lparr>sourceSatoshis := Some 0\<rparr>) tx inputIndex
     = sign sdk (args\<lparr>sourceSatoshis := None\<rparr>) tx inputIndex"
proof -
  have ci: "customInstructions (args\<lparr>sourceSatoshis := x\<rparr>) = customInstructions args" for x
    by simp
  have init: "initialScript sdk (args\<lparr>sourceSatoshis := x\<rparr>) = initialScript sdk args" for x
    by (simp add: initialScript_def split: option.split)
  have sats: "resolvedSourceSatoshis (args\<lparr>sourceSatoshis := Some 0\<rparr>) inp
      = resolvedSourceSatoshis (args\<lparr>sourceSatoshis := None\<rparr>) inp" for inp
    by (simp add: resolvedSourceSatoshis_def)
  have ls: "resolvedLockingScript (args\<lparr>sourceSatoshis := x\<rparr>) inp
      = resolvedLockingScript args inp" for x inp
    by (simp add: resolvedLockingScript_def)
  have req: "signatureRequest (args\<lparr>sourceSatoshis := x\<rparr>) tx i t v l
      = signatureRequest args tx i t v l" for x i t v l
    by (simp add: signatureRequest_def)
  show ?thesis
    unfolding sign_def ci init sats ls req ..
qed

text \<open>
  \<^bold>\<open>C10.\<close> For an input without an attached source transaction \<^verbatim>\<open>estimateLength\<close>
  returns 1000, whatever was passed to \<^verbatim>\<open>unlock\<close>, a locking script included.
\<close>

theorem C10_estimateLength_placeholder:
  assumes "inputIndex < length (inputs tx)"
    and "sourceTransaction (inputs tx ! inputIndex) = None"
  shows "estimateLength args tx inputIndex = Inr 1000"
  using assms by (simp add: estimateLength_def sourceOutputField_def)

theorem C10_estimateLength_placeholder_witness:
  "estimateLength ((demo_args ''k'' None)\<lparr>unlock_lockingScript := Some demo_locking_1_of_2\<rparr>)
     demo_tx 2 = Inr 1000"
  using C10_estimateLength_placeholder [of 2 demo_tx
      "(demo_args ''k'' None)\<lparr>unlock_lockingScript := Some demo_locking_1_of_2\<rparr>"]
  by (simp add: demo_tx_def)

text \<open>The estimate is the same for any two sets of arguments of \<^verbatim>\<open>unlock\<close>.\<close>

lemma estimateLength_ignores_unlock_arguments:
  "estimateLength args tx inputIndex = estimateLength args' tx inputIndex"
  by (simp add: estimateLength_def)

subsection \<open>The address codec\<close>

lemma unat_byte_of_nat: "unat (of_nat n :: byte) = n mod 256"
  by (simp add: unat_of_nat)

lemma length_le_fixed: "length (le_fixed k n) = k"
  by (induction k arbitrary: n) simp_all

lemma le_value_le_fixed: "le_value (le_fixed k n) = n mod 256 ^ k"
proof (induction k arbitrary: n)
  case 0
  show ?case by simp
next
  case (Suc k)
  have "n mod 256 + 256 * (n div 256 mod 256 ^ k) = n mod (256 * 256 ^ k)"
    by (simp add: mod_mult2_eq)
  then show ?case by (simp add: Suc unat_byte_of_nat)
qed

lemma readUIntLE_le_fixed:
  "n < 256 ^ k \<Longrightarrow> readUIntLE k (le_fixed k n @ rest) = (Some (int n), rest)"
  by (simp add: readUIntLE_def length_le_fixed le_value_le_fixed)

lemma readInt64LEBn_le_fixed:
  "n < 2 ^ 63 \<Longrightarrow> readInt64LEBn (le_fixed 8 n @ rest) = int n"
proof -
  assume n: "n < 2 ^ 63"
  have "take 8 (le_fixed 8 n @ rest) = le_fixed 8 n"
    by (simp add: length_le_fixed)
  moreover have "n mod 256 ^ 8 = n" using n by simp
  ultimately show ?thesis
    using n by (simp add: readInt64LEBn_def le_value_le_fixed Let_def)
qed

lemma byte_of_nat_neq:
  "n < 253 \<Longrightarrow> (of_nat n :: byte) \<noteq> 253 \<and> (of_nat n :: byte) \<noteq> 254 \<and> (of_nat n :: byte) \<noteq> 255"
proof -
  assume a: "n < 253"
  then have u: "unat (of_nat n :: byte) = n" by (simp add: unat_byte_of_nat)
  have "unat (253 :: byte) = 253" "unat (254 :: byte) = 254" "unat (255 :: byte) = 255"
    by simp_all
  with a u show ?thesis by force
qed

lemma readVarIntNum_small:
  assumes "n < 253"
  shows "readVarIntNum (varIntNum n @ rest) = Inr (Some (int n), rest)"
proof -
  have u: "unat (of_nat n :: byte) = n" using assms by (simp add: unat_byte_of_nat)
  have "uint (of_nat n :: byte) = int n"
    using u by (simp add: uint_nat)
  then show ?thesis using assms byte_of_nat_neq [OF assms]
    by (simp add: readVarIntNum_def varIntNum_def)
qed

lemma readVarIntNum_16:
  assumes "253 \<le> n" "n < 65536"
  shows "readVarIntNum (varIntNum n @ rest) = Inr (Some (int n), rest)"
proof -
  have v: "varIntNum n = 253 # le_fixed 2 n"
    using assms by (simp add: varIntNum_def)
  have "n < 256 ^ 2" using assms by simp
  then have "readUIntLE 2 (le_fixed 2 n @ rest) = (Some (int n), rest)"
    by (rule readUIntLE_le_fixed)
  then show ?thesis unfolding v by (simp add: readVarIntNum_def)
qed

lemma readVarIntNum_32:
  assumes "65536 \<le> n" "n < 4294967296"
  shows "readVarIntNum (varIntNum n @ rest) = Inr (Some (int n), rest)"
proof -
  have v: "varIntNum n = 254 # le_fixed 4 n"
    using assms by (simp add: varIntNum_def)
  have "n < 256 ^ 4" using assms by simp
  then have "readUIntLE 4 (le_fixed 4 n @ rest) = (Some (int n), rest)"
    by (rule readUIntLE_le_fixed)
  then show ?thesis unfolding v by (simp add: readVarIntNum_def)
qed

lemma readVarIntNum_varIntNum:
  assumes "n < 4294967296"
  shows "readVarIntNum (varIntNum n @ rest) = Inr (Some (int n), rest)"
proof -
  consider "n < 253" | "253 \<le> n" "n < 65536" | "65536 \<le> n" "n < 4294967296"
    using assms by linarith
  then show ?thesis
    by cases (simp_all add: readVarIntNum_small readVarIntNum_16 readVarIntNum_32)
qed

lemma decode_encoded:
  assumes codec: "\<forall>d p. length p = 1 \<longrightarrow> fromBase58Check sdk (toBase58Check sdk d p) = Some (p, d)"
    and "length h = 20" "m < 4294967296" "n < 4294967296"
  shows "thresholdAndTotalFromAddress sdk (toBase58Check sdk (h @ varIntNum m @ varIntNum n) [0x98])
         = Inr \<lparr>dec_hash = h, dec_threshold = Some (int m), dec_total = Some (int n)\<rparr>"
proof -
  have "fromBase58Check sdk (toBase58Check sdk (h @ varIntNum m @ varIntNum n) [0x98])
        = Some ([0x98], h @ varIntNum m @ varIntNum n)"
    using codec by simp
  moreover have "readVarIntNum (varIntNum m @ varIntNum n) = Inr (Some (int m), varIntNum n)"
    using assms(3) by (rule readVarIntNum_varIntNum)
  moreover have "readVarIntNum (varIntNum n) = Inr (Some (int n), [])"
    using readVarIntNum_varIntNum [OF assms(4), of "[]"] by simp
  ultimately show ?thesis
    using assms(2) by (simp add: thresholdAndTotalFromAddress_def Let_def)
qed

text \<open>
  \<^bold>\<open>C4.\<close> For a list of \<open>N\<close> keys, \<open>2 \<le> N \<le> 10\<close>, and a threshold \<open>M\<close>,
  \<open>1 \<le> M \<le> N\<close>, \<^verbatim>\<open>address\<close> succeeds and \<^verbatim>\<open>thresholdAndTotalFromAddress\<close> of
  its result is the hash of the concatenated key encodings in list order, the threshold
  \<open>M\<close> and the total \<open>N\<close>. The library is asked for two things: base58check decoding
  inverts encoding under a one-byte prefix, and the hash has 20 bytes.
\<close>

theorem C4_address_roundtrip:
  assumes "\<forall>d p. length p = 1 \<longrightarrow> fromBase58Check sdk (toBase58Check sdk d p) = Some (p, d)"
    and "length (hash160 sdk (concat (map toDER pks))) = 20"
    and "2 \<le> N" "N \<le> 10" "1 \<le> M" "M \<le> N" "int (length pks) = N"
  shows "\<exists>a. address sdk pks M = Inr a
           \<and> thresholdAndTotalFromAddress sdk a =
               Inr \<lparr>dec_hash = hash160 sdk (concat (map toDER pks)),
                    dec_threshold = Some M, dec_total = Some N\<rparr>"
proof -
  have a: "address sdk pks M =
      Inr (toBase58Check sdk
             (hash160 sdk (concat (map toDER pks)) @ varIntNum (nat M) @ varIntNum (length pks))
             [0x98])"
    using assms(3-7) by (auto simp: address_def Let_def concatPubkeys_concat)
  have "nat M < 4294967296" "length pks < 4294967296"
    using assms(3-7) by linarith+
  from decode_encoded [OF assms(1,2) this] a assms(5,7) show ?thesis
    by simp
qed

text \<open>
  \<^bold>\<open>C7, amended.\<close> Whenever \<^verbatim>\<open>address\<close> succeeds, its result decodes to the threshold
  and to the number of keys it was given, with \<open>1 \<le> threshold \<le> total\<close> and
  \<open>total \<ge> 2\<close>. There is no upper bound on the total in \<^verbatim>\<open>address\<close>; \<^verbatim>\<open>lock\<close> is
  where a total above 10 is refused. (A JavaScript array has fewer than \<open>2^32\<close>
  elements.)
\<close>

theorem C7_address_invariant:
  assumes "\<forall>d p. length p = 1 \<longrightarrow> fromBase58Check sdk (toBase58Check sdk d p) = Some (p, d)"
    and "length (hash160 sdk (concatPubkeys pks)) = 20"
    and "length pks < 4294967296"
    and "address sdk pks thr = Inr a"
  shows "\<exists>h. thresholdAndTotalFromAddress sdk a =
               Inr \<lparr>dec_hash = h, dec_threshold = Some thr, dec_total = Some (int (length pks))\<rparr>
           \<and> 1 \<le> thr \<and> thr \<le> int (length pks) \<and> 2 \<le> length pks"
proof -
  have range: "1 \<le> thr" "thr \<le> int (length pks)" "2 \<le> length pks"
    using assms(4) by (auto simp: address_def split: if_splits)
  have a: "a = toBase58Check sdk
             (hash160 sdk (concatPubkeys pks) @ varIntNum (nat thr) @ varIntNum (length pks))
             [0x98]"
    using assms(4) range by (auto simp: address_def Let_def)
  have "nat thr < 4294967296"
    using range assms(3) by linarith
  from decode_encoded [OF assms(1,2) this assms(3)] a range show ?thesis
    by simp
qed

lemma byte_of_unat_mod: "(of_nat (unat b mod 256) :: byte) = b"
proof -
  have "unat b < 2 ^ LENGTH(8)" by (rule unsigned_less)
  then show ?thesis by simp
qed

text \<open>The small instance of the library meets the hypothesis on the codec.\<close>

lemma demo_codec:
  "\<forall>d p. length p = 1 \<longrightarrow>
     fromBase58Check demo_sdk (toBase58Check demo_sdk d p) = Some (p, d)"
proof (intro allI impI)
  fix d p :: "byte list"
  assume "length p = 1"
  then obtain x where p: "p = [x]" by (cases p) auto
  show "fromBase58Check demo_sdk (toBase58Check demo_sdk d p) = Some (p, d)"
    by (simp add: demo_sdk_def demo_toBase58Check_def demo_fromBase58Check_def p
        byte_of_unat_mod comp_def)
qed

lemma demo_hash_3: "hash160 demo_sdk (concat (map toDER [demo_key 1, demo_key 2, demo_key 3])) = 2 # replicate 19 1"
  by (simp add: demo_sdk_def demo_hash160_def demo_key_def)

lemma demo_hash_11: "hash160 demo_sdk (concatPubkeys (replicate 11 (demo_key 1))) = 2 # replicate 19 1"
  by (simp add: demo_sdk_def demo_hash160_def demo_key_def concatPubkeys_concat numeral_eq_Suc)

lemma demo_address_11:
  "address demo_sdk (replicate 11 (demo_key 1)) 3 =
     Inr (toBase58Check demo_sdk (2 # replicate 19 1 @ [3, 11]) [0x98])"
  by (simp add: address_def Let_def demo_hash_11 varIntNum_def)

text \<open>
  \<^bold>\<open>C7.\<close> As stated the claim fails: \<^verbatim>\<open>address\<close> accepts 11 keys, and the address
  decodes to a total of 11.
\<close>

theorem C7_counterexample:
  "address demo_sdk (replicate 11 (demo_key 1)) 3 =
     Inr (toBase58Check demo_sdk (2 # replicate 19 1 @ [3, 11]) [0x98])
   \<and> thresholdAndTotalFromAddress demo_sdk
       (toBase58Check demo_sdk (2 # replicate 19 1 @ [3, 11]) [0x98]) =
     Inr \<lparr>dec_hash = 2 # replicate 19 1, dec_threshold = Some 3, dec_total = Some 11\<rparr>"
  using decode_encoded [OF demo_codec, of "2 # replicate 19 1" 3 11]
  by (simp add: demo_address_11 varIntNum_def)

theorem C4_address_roundtrip_witness:
  "address demo_sdk [demo_key 1, demo_key 2, demo_key 3] 2 =
     Inr (toBase58Check demo_sdk (2 # replicate 19 1 @ [2, 3]) [0x98])
   \<and> thresholdAndTotalFromAddress demo_sdk
       (toBase58Check demo_sdk (2 # replicate 19 1 @ [2, 3]) [0x98]) =
     Inr \<lparr>dec_hash = 2 # replicate 19 1, dec_threshold = Some 2, dec_total = Some 3\<rparr>"
proof -
  have a: "address demo_sdk [demo_key 1, demo_key 2, demo_key 3] 2 =
     Inr (toBase58Check demo_sdk (2 # replicate 19 1 @ [2, 3]) [0x98])"
    using demo_hash_3 by (simp add: address_def Let_def varIntNum_def concatPubkeys_concat)
  from C4_address_roundtrip [OF demo_codec, of "[demo_key 1, demo_key 2, demo_key 3]" 3 2]
  show ?thesis
    unfolding a demo_hash_3 by simp
qed

theorem C7_address_invariant_witness:
  "address demo_sdk (replicate 11 (demo_key 1)) 3 =
     Inr (toBase58Check demo_sdk (2 # replicate 19 1 @ [3, 11]) [0x98])
   \<and> (\<exists>h. thresholdAndTotalFromAddress demo_sdk
              (toBase58Check demo_sdk (2 # replicate 19 1 @ [3, 11]) [0x98]) =
            Inr \<lparr>dec_hash = h, dec_threshold = Some 3, dec_total = Some 11\<rparr>)"
  using C7_address_invariant [OF demo_codec _ _ demo_address_11]
  by (simp add: demo_address_11 demo_hash_11)

subsection \<open>An address that ends before the total\<close>

text \<open>The payload below holds the hash and the threshold 2 and nothing more. The
  decoder returns an undefined total, \<^verbatim>\<open>lock\<close> passes both tests and returns a script
  without \<^verbatim>\<open>OP_CAT\<close> and \<^verbatim>\<open>OP_SPLIT\<close> and with \<^verbatim>\<open>OP_0\<close> for the total, and the
  estimate on that script is \<open>1 + 2 * 74 + (-80) * 34\<close>.\<close>

lemma numberOfSignatures_undefined_total:
  assumes "1 \<le> M" "M \<le> 16"
  shows "numberOfSignatures (lock_script h M None) = Inr M"
  unfolding lock_script_undefined_total [OF assms]
  using pushOp_not_EQUALVERIFY [of h]
  by (simp add: numberOfSignatures_def chunkAt_def numberFromScriptChunk_def Let_def OP_defs)

lemma demo_decode_truncated:
  "thresholdAndTotalFromAddress demo_sdk (toBase58Check demo_sdk (replicate 20 7 @ [2]) [0x98]) =
     Inr \<lparr>dec_hash = replicate 20 7, dec_threshold = Some 2, dec_total = None\<rparr>"
  using demo_codec
  by (simp add: thresholdAndTotalFromAddress_def readVarIntNum_def Let_def)

lemma lock_undefined_total_example:
  "lock demo_sdk (Some (toBase58Check demo_sdk (replicate 20 7 @ [2]) [0x98])) None None =
     Inr (lock_script (replicate 20 7) 2 None)"
proof -
  have "toBase58Check demo_sdk (replicate 20 7 @ [2]) [0x98] \<noteq> []"
    by (simp add: demo_sdk_def demo_toBase58Check_def)
  then show ?thesis
    by (simp add: lock_def Let_def demo_decode_truncated)
qed

lemma estimateLength_undefined_total_example:
  "estimateLength args
     \<lparr>version = 1,
      inputs = [\<lparr>sourceTXID = None,
                 sourceTransaction = Some \<lparr>tx_id = ''aa'', tx_outputs =
                   [\<lparr>satoshis = Some 1, lockingScript = lock_script (replicate 20 7) 2 None\<rparr>]\<rparr>,
                 sourceOutputIndex = 0, sequence = None\<rparr>],
      outputs = [], lockTime = 0\<rparr> 0 = Inr (- 2571)"
  by (simp add: estimateLength_def sourceOutputField_def numberOfPubkeys_undefined_total
      numberOfSignatures_undefined_total staticLength_def)

subsection \<open>The two encodings of a number\<close>

lemma le_value_le_bytes: "le_value (le_bytes n) = n"
proof (induction n rule: le_bytes.induct)
  case (1 n)
  show ?case
  proof (cases "n = 0")
    case True
    then show ?thesis by (simp add: le_bytes.simps)
  next
    case False
    with 1 have "le_value (le_bytes (n div 256)) = n div 256" by simp
    with False show ?thesis
      by (subst le_bytes.simps) (simp add: unat_byte_of_nat)
  qed
qed

lemma length_le_bytes: "n < 256 ^ k \<Longrightarrow> length (le_bytes n) \<le> k"
proof (induction k arbitrary: n)
  case 0
  then show ?case by (simp add: le_bytes.simps)
next
  case (Suc k)
  show ?case
  proof (cases "n = 0")
    case True
    then show ?thesis by (simp add: le_bytes.simps)
  next
    case False
    from Suc.prems have "n div 256 < 256 ^ k"
      by (simp add: less_mult_imp_div_less mult.commute)
    from Suc.IH [OF this] False show ?thesis
      by (subst le_bytes.simps) simp
  qed
qed

lemma le_value_append_zero: "le_value (xs @ [0]) = le_value xs"
  by (induction xs) simp_all

lemma toSm_positive:
  assumes "0 < v"
  shows "toSm v = le_bytes (nat v) \<or> toSm v = le_bytes (nat v) @ [0]"
  using assms by (auto simp: toSm_def Let_def)

lemma readInt64LEBn_toSm:
  assumes "0 < v" "v < 2 ^ 53"
  shows "readInt64LEBn (toSm v) = v"
proof -
  have "nat v < 256 ^ 7" using assms by simp
  then have len: "length (le_bytes (nat v)) \<le> 7" by (rule length_le_bytes)
  have val: "le_value (toSm v) = nat v" and short: "length (toSm v) \<le> 8"
    using toSm_positive [OF assms(1)] len
    by (auto simp: le_value_le_bytes le_value_append_zero)
  have "take 8 (toSm v) = toSm v" using short by simp
  then show ?thesis
    using assms val by (simp add: readInt64LEBn_def Let_def)
qed

text \<open>
  \<^bold>\<open>C8, amended.\<close> \<^verbatim>\<open>numberFromScriptChunk\<close> reads both encodings the writer produces
  for a count: for \<open>1 \<le> v \<le> 16\<close> the writer emits the single opcode \<open>OP_1 + v - 1\<close>
  and the reader returns \<open>v\<close>; for \<open>17 \<le> v < 2^53\<close> (the numbers a JavaScript number
  holds exactly) the writer emits a push of the little-endian bytes of \<open>v\<close> and the
  reader returns \<open>v\<close>.
\<close>

theorem C8_number_encodings:
  "(1 \<le> v \<and> v \<le> 16 \<longrightarrow>
      last (writeNumber s v) = \<lparr>op = OP_1 + v - 1, data = None\<rparr>
      \<and> numberFromScriptChunk (last (writeNumber s v)) = Inr v)
   \<and> (17 \<le> v \<and> v < 2 ^ 53 \<longrightarrow>
      last (writeNumber s v) = \<lparr>op = pushOp (toSm v), data = Some (toSm v)\<rparr>
      \<and> numberFromScriptChunk (last (writeNumber s v)) = Inr v)"
proof (intro conjI impI)
  assume v: "1 \<le> v \<and> v \<le> 16"
  then show a: "last (writeNumber s v) = \<lparr>op = OP_1 + v - 1, data = None\<rparr>"
    by (simp add: writeNumber_small)
  show "numberFromScriptChunk (last (writeNumber s v)) = Inr v"
    unfolding a by (simp add: numberFromScriptChunk_def)
next
  assume v: "17 \<le> v \<and> v < 2 ^ 53"
  then show b: "last (writeNumber s v) = \<lparr>op = pushOp (toSm v), data = Some (toSm v)\<rparr>"
    by (simp add: writeNumber_def writeBin_def)
  have "readInt64LEBn (toSm v) = v"
    using v by (intro readInt64LEBn_toSm) simp_all
  then show "numberFromScriptChunk (last (writeNumber s v)) = Inr v"
    unfolding b using v by (simp add: numberFromScriptChunk_def toNumber_def)
qed

lemma toSm_1000: "toSm 1000 = [232, 3]"
  by (simp add: toSm_def le_bytes.simps Let_def)

theorem C8_number_encodings_witness:
  "last (writeNumber [] 10) = \<lparr>op = 90, data = None\<rparr>
   \<and> numberFromScriptChunk \<lparr>op = 90, data = None\<rparr> = Inr 10
   \<and> last (writeNumber [] 33) = \<lparr>op = 1, data = Some [33]\<rparr>
   \<and> numberFromScriptChunk \<lparr>op = 1, data = Some [33]\<rparr> = Inr 33
   \<and> last (writeNumber [] 1000) = \<lparr>op = 2, data = Some [232, 3]\<rparr>
   \<and> numberFromScriptChunk \<lparr>op = 2, data = Some [232, 3]\<rparr> = Inr 1000"
  using C8_number_encodings [of 10 "[]"] C8_number_encodings [of 33 "[]"]
    C8_number_encodings [of 1000 "[]"]
  by (auto simp: toSm_33 toSm_1000 pushOp_def OP_defs)

text \<open>
  \<^bold>\<open>C8.\<close> As stated the claim fails for a negative number: it is outside 1 to 16, the
  writer emits it as a push-data chunk, with the sign in the top bit of the last byte,
  and the reader takes that bit for part of the magnitude. For \<open>-2\<close> the writer emits
  the push of \<open>[0x82]\<close> and the reader returns 130. The reader is made for the threshold
  and the total, which are positive.
\<close>

theorem C8_counterexample:
  "last (writeNumber [] (-2)) = \<lparr>op = 1, data = Some [130]\<rparr>
   \<and> numberFromScriptChunk \<lparr>op = 1, data = Some [130]\<rparr> = Inr 130"
  by (simp add: writeNumber_def writeBin_def toSm_def le_bytes.simps Let_def pushOp_def OP_defs
      numberFromScriptChunk_def readInt64LEBn_def toNumber_def)

text \<open>Zero is written as the bare opcode \<^verbatim>\<open>OP_0\<close>, not as push-data, and that opcode is
  read as \<open>1 + 0 - 81\<close>. \<^verbatim>\<open>lock\<close> writes a threshold of at least 1.\<close>

lemma numberFromScriptChunk_zero:
  "last (writeNumber [] 0) = \<lparr>op = 0, data = None\<rparr>
   \<and> numberFromScriptChunk \<lparr>op = 0, data = None\<rparr> = Inr (-80)"
  by (simp add: writeNumber_def OP_defs numberFromScriptChunk_def)

end
